(* ===== verification/Prelude.thy ===== *)
theory Prelude
  imports Main "HOL-Library.AList" "HOL-Library.State_Monad"
begin

text \<open>
  Shared vocabulary of the development.

  The stack constructor of \<^verbatim>\<open>src/infrastructure/lib/infra-stack.ts\<close> creates named
  constructs inside a scope, one after the other, and wires them by reference. The
  theories of the components therefore share
  \<^item> the type of construct ids and the representation of a scope as an association list
    in creation order (the order matters: a construct can only refer to constructs that
    exist when it is created);
  \<^item> lemmas on such lists: lookup after adding an entry at the end, updating the entry
    of one id, distinctness of the ids;
  \<^item> \<open>report\<close>, with which the validators build their lists of errors;
  \<^item> two collections of facts: \<open>infra_defs\<close> holds the defining equations of the
    declarations of the stack (with them \<open>simp\<close> evaluates a closed term of the model),
    \<open>wf_defs\<close> the well-formedness predicates that a proof unfolds on demand.
\<close>

named_theorems infra_defs "defining equations of the declarations of the stack"
named_theorems wf_defs "well-formedness predicates of the components"

type_synonym construct_id = string

type_synonym 'r entries = "(construct_id \<times> 'r) list"

subsection \<open>Entries in creation order\<close>

definition ids :: "'r entries \<Rightarrow> construct_id list" where
  "ids es = map fst es"

abbreviation fresh :: "construct_id \<Rightarrow> 'r entries \<Rightarrow> bool" where
  "fresh i es \<equiv> i \<notin> set (ids es)"

definition add_entry :: "construct_id \<Rightarrow> 'r \<Rightarrow> 'r entries \<Rightarrow> 'r entries" where
  "add_entry i r es = es @ [(i, r)]"

definition find_entry :: "'r entries \<Rightarrow> construct_id \<Rightarrow> 'r option" where
  "find_entry es i = map_of es i"

definition map_entry :: "construct_id \<Rightarrow> ('r \<Rightarrow> 'r) \<Rightarrow> 'r entries \<Rightarrow> 'r entries" where
  "map_entry i f es = AList.map_entry i f es"

definition report :: "bool \<Rightarrow> 'a \<Rightarrow> 'a list" where
  "report b e = (if b then [e] else [])"

lemma ids_simps [simp]:
  "ids [] = []"
  "ids ((i, r) # es) = i # ids es"
  "ids (es @ es') = ids es @ ids es'"
  by (simp_all add: ids_def)

lemma ids_add_entry [simp]: "ids (add_entry i r es) = ids es @ [i]"
  by (simp add: add_entry_def)

lemma ids_map_entry [simp]: "ids (map_entry i f es) = ids es"
  by (induction es) (auto simp: map_entry_def)

lemma fresh_find_entry: "fresh i es \<longleftrightarrow> find_entry es i = None"
  by (simp add: find_entry_def ids_def map_of_eq_None_iff)

lemma find_entry_Nil [simp]: "find_entry [] i = None"
  by (simp add: find_entry_def)

lemma find_entry_add_entry:
  "find_entry (add_entry j r es) i =
     (case find_entry es i of Some r' \<Rightarrow> Some r' | None \<Rightarrow> if i = j then Some r else None)"
  by (simp add: find_entry_def add_entry_def map_add_def split: option.split)

lemma find_entry_add_entry_fresh [simp]:
  "fresh j es \<Longrightarrow> find_entry (add_entry j r es) i = (if i = j then Some r else find_entry es i)"
  by (auto simp: find_entry_add_entry fresh_find_entry split: option.split)

lemma find_entry_map_entry [simp]:
  "find_entry (map_entry j f es) i =
     (if i = j then map_option f (find_entry es i) else find_entry es i)"
  by (auto simp: find_entry_def map_entry_def map_of_map_entry split: option.split)

lemma list_all_map_entry:
  assumes "list_all (\<lambda>(j, r). Q r) es"
    and "\<And>r. find_entry es i = Some r \<Longrightarrow> Q r \<Longrightarrow> Q (f r)"
  shows "list_all (\<lambda>(j, r). Q r) (map_entry i f es)"
  using assms by (induction es) (auto simp: map_entry_def find_entry_def)

lemma list_all_add_entry [simp]:
  "list_all P (add_entry i r es) \<longleftrightarrow> list_all P es \<and> P (i, r)"
  by (simp add: add_entry_def)

lemma list_all_entries_find:
  "list_all (\<lambda>(j, r). Q r) es \<Longrightarrow> find_entry es i = Some r \<Longrightarrow> Q r"
  by (auto simp: find_entry_def list_all_iff dest: map_of_SomeD)

subsection \<open>Lists of errors\<close>

lemma report_Nil [simp]: "report b e = [] \<longleftrightarrow> \<not> b"
  by (simp add: report_def)

lemma report_simps [simp]: "report True e = [e]" "report False e = []"
  by (simp_all add: report_def)

lemma filter_Nil_all: "filter P xs = [] \<longleftrightarrow> list_all (\<lambda>x. \<not> P x) xs"
  by (simp add: filter_empty_conv list_all_iff)

subsection \<open>Lists\<close>

lemma list_all_concat [simp]: "list_all P (concat xss) \<longleftrightarrow> list_all (list_all P) xss"
  by (induction xss) auto

end
