(* ===== verification/CodePipeline.thy ===== *)
theory CodePipeline
  imports Prelude
begin

text \<open>
  The delivery pipeline: artifacts, the three actions the stack declares, stages and
  the pipeline object with its one mutating operation \<open>addStage\<close>
  (\<^verbatim>\<open>src/infrastructure/lib/infra-stack.ts\<close>, lines 20-32, 61-63, 96-100 and 111-131).

  The records carry exactly the properties the source writes in its object literals.
  A reference to another construct (the build project, the bucket) is the id of that
  construct in the scope of the stack. The source creates the build project inside the
  literal of the build action (line 34); the model creates it in the statement before
  the action is built and passes its id, which keeps the order of the effects. An artifact is an object without a name: the
  source tells two artifacts apart only by their identity, which the model keeps as
  the number of the allocation.

  The second half of the theory states when a pipeline is well formed (names are
  unique, no stage is empty, every artifact an action consumes was produced by an
  earlier stage and by one action only, source actions stand in the first stage and
  only there) and proves that \<open>addStage\<close> keeps a pipeline well formed exactly when the
  new stage meets \<open>addStage_ok\<close>.
\<close>

subsection \<open>Artifacts and secrets\<close>

datatype Artifact = Artifact nat

datatype SecretValue = secretsManager string

subsection \<open>Actions\<close>

record CommonActionProps =
  actionName :: string

record GitHubSourceActionProps = CommonActionProps +
  owner :: string
  repo :: string
  oauthToken :: SecretValue
  "output" :: Artifact
  branch :: string

record CodeBuildActionProps = CommonActionProps +
  project :: construct_id
  input :: Artifact
  outputs :: "Artifact list"

record S3DeployActionProps = CommonActionProps +
  input :: Artifact
  bucket :: construct_id

datatype Action =
    GitHubSourceAction GitHubSourceActionProps
  | CodeBuildAction CodeBuildActionProps
  | S3DeployAction S3DeployActionProps

subsection \<open>Stages and the pipeline\<close>

record StageProps =
  stageName :: string
  actions :: "Action list"

record PipelineProps =
  pipelineName :: string
  crossAccountKeys :: bool

record Pipeline = PipelineProps +
  stages :: "StageProps list"

definition new_Pipeline :: "PipelineProps \<Rightarrow> Pipeline" where
  "new_Pipeline props =
     \<lparr>pipelineName = pipelineName props, crossAccountKeys = crossAccountKeys props, stages = []\<rparr>"

definition addStage :: "Pipeline \<Rightarrow> StageProps \<Rightarrow> Pipeline" where
  "addStage p st = p\<lparr>stages := stages p @ [st]\<rparr>"

subsection \<open>The declarations of the stack\<close>

definition sourceAction :: "Artifact \<Rightarrow> Action" where
  "sourceAction sourceOutput = GitHubSourceAction \<lparr>
     actionName = ''GithubSource'',
     owner = ''mactunechy'',
     repo = ''aws-idf-example'',
     oauthToken = secretsManager ''github_token'',
     output = sourceOutput,
     branch = ''main''\<rparr>"

definition buildAction :: "construct_id \<Rightarrow> Artifact \<Rightarrow> Artifact \<Rightarrow> Action" where
  "buildAction = (\<lambda>project sourceOutput buildOutput. CodeBuildAction \<lparr>
     actionName = ''Build'',
     project = project,
     CodeBuildActionProps.input = sourceOutput,
     outputs = [buildOutput]\<rparr>)"

definition deployAction :: "Artifact \<Rightarrow> construct_id \<Rightarrow> Action" where
  "deployAction = (\<lambda>buildOutput bucket. S3DeployAction \<lparr>
     actionName = ''S3Deploy'',
     input = buildOutput,
     bucket = bucket\<rparr>)"

definition pipelineProps :: PipelineProps where
  "pipelineProps = \<lparr>pipelineName = ''AwsIDFExample'', crossAccountKeys = False\<rparr>"

lemmas [infra_defs] = sourceAction_def buildAction_def deployAction_def pipelineProps_def

subsection \<open>What an action is called, consumes and produces\<close>

datatype ActionCategory = SOURCE | BUILD | DEPLOY

fun category :: "Action \<Rightarrow> ActionCategory" where
  "category (GitHubSourceAction p) = SOURCE"
| "category (CodeBuildAction p) = BUILD"
| "category (S3DeployAction p) = DEPLOY"

fun action_name :: "Action \<Rightarrow> string" where
  "action_name (GitHubSourceAction p) = actionName p"
| "action_name (CodeBuildAction p) = actionName p"
| "action_name (S3DeployAction p) = actionName p"

fun action_inputs :: "Action \<Rightarrow> Artifact list" where
  "action_inputs (GitHubSourceAction p) = []"
| "action_inputs (CodeBuildAction p) = [CodeBuildActionProps.input p]"
| "action_inputs (S3DeployAction p) = [S3DeployActionProps.input p]"

fun action_outputs :: "Action \<Rightarrow> Artifact list" where
  "action_outputs (GitHubSourceAction p) = [output p]"
| "action_outputs (CodeBuildAction p) = outputs p"
| "action_outputs (S3DeployAction p) = []"

definition stage_inputs :: "StageProps \<Rightarrow> Artifact list" where
  "stage_inputs st = concat (map action_inputs (actions st))"

definition stage_outputs :: "StageProps \<Rightarrow> Artifact list" where
  "stage_outputs st = concat (map action_outputs (actions st))"

definition produced :: "StageProps list \<Rightarrow> Artifact list" where
  "produced sts = concat (map stage_outputs sts)"

definition stage_names :: "Pipeline \<Rightarrow> string list" where
  "stage_names p = map stageName (stages p)"

subsection \<open>Well-formed pipelines\<close>

definition is_source :: "StageProps \<Rightarrow> bool" where
  "is_source st \<longleftrightarrow> list_all (\<lambda>a. category a = SOURCE) (actions st)"

definition no_source :: "StageProps \<Rightarrow> bool" where
  "no_source st \<longleftrightarrow> list_all (\<lambda>a. category a \<noteq> SOURCE) (actions st)"

definition wf_stage :: "StageProps \<Rightarrow> bool" where
  "wf_stage st \<longleftrightarrow>
     actions st \<noteq> [] \<and> distinct (map action_name (actions st)) \<and> distinct (stage_outputs st)"

fun artifacts_flow :: "Artifact list \<Rightarrow> StageProps list \<Rightarrow> bool" where
  "artifacts_flow avail [] \<longleftrightarrow> True"
| "artifacts_flow avail (st # sts) \<longleftrightarrow>
     list_all (\<lambda>a. a \<in> set avail) (stage_inputs st) \<and>
     list_all (\<lambda>a. a \<notin> set avail) (stage_outputs st) \<and>
     artifacts_flow (avail @ stage_outputs st) sts"

fun source_first :: "StageProps list \<Rightarrow> bool" where
  "source_first [] \<longleftrightarrow> True"
| "source_first (st # sts) \<longleftrightarrow> is_source st \<and> list_all no_source sts"

definition wf_stages :: "StageProps list \<Rightarrow> bool" where
  "wf_stages sts \<longleftrightarrow>
     distinct (map stageName sts) \<and> list_all wf_stage sts \<and>
     artifacts_flow [] sts \<and> source_first sts"

definition stage_ok :: "StageProps list \<Rightarrow> StageProps \<Rightarrow> bool" where
  "stage_ok sts st \<longleftrightarrow>
     stageName st \<notin> set (map stageName sts) \<and> wf_stage st \<and>
     list_all (\<lambda>a. a \<in> set (produced sts)) (stage_inputs st) \<and>
     list_all (\<lambda>a. a \<notin> set (produced sts)) (stage_outputs st) \<and>
     (if sts = [] then is_source st else no_source st)"

definition wf_pipeline :: "Pipeline \<Rightarrow> bool" where
  "wf_pipeline p \<longleftrightarrow> wf_stages (stages p)"

definition addStage_ok :: "Pipeline \<Rightarrow> StageProps \<Rightarrow> bool" where
  "addStage_ok p st \<longleftrightarrow> stage_ok (stages p) st"

lemmas pipeline_wf_defs [wf_defs] =
  wf_pipeline_def wf_stages_def wf_stage_def addStage_ok_def stage_ok_def is_source_def
  no_source_def stage_inputs_def stage_outputs_def produced_def stage_names_def

subsection \<open>The pipeline object\<close>

lemma stages_new_Pipeline [simp]: "stages (new_Pipeline props) = []"
  by (simp add: new_Pipeline_def)

lemma props_new_Pipeline [simp]:
  "pipelineName (new_Pipeline props) = pipelineName props"
  "crossAccountKeys (new_Pipeline props) = crossAccountKeys props"
  by (simp_all add: new_Pipeline_def)

lemma stages_addStage [simp]: "stages (addStage p st) = stages p @ [st]"
  by (simp add: addStage_def)

lemma props_addStage [simp]:
  "pipelineName (addStage p st) = pipelineName p"
  "crossAccountKeys (addStage p st) = crossAccountKeys p"
  by (simp_all add: addStage_def)

lemma stage_names_addStage [simp]: "stage_names (addStage p st) = stage_names p @ [stageName st]"
  by (simp add: stage_names_def)

lemma produced_simps [simp]:
  "produced [] = []"
  "produced (st # sts) = stage_outputs st @ produced sts"
  "produced (sts @ sts') = produced sts @ produced sts'"
  by (simp_all add: produced_def)

subsection \<open>Appending a stage\<close>

lemma artifacts_flow_snoc:
  "artifacts_flow avail (sts @ [st]) \<longleftrightarrow>
     artifacts_flow avail sts \<and>
     list_all (\<lambda>a. a \<in> set avail \<union> set (produced sts)) (stage_inputs st) \<and>
     list_all (\<lambda>a. a \<notin> set avail \<union> set (produced sts)) (stage_outputs st)"
  by (induction sts arbitrary: avail) (auto simp: Un_assoc)

lemma source_first_snoc:
  "source_first (sts @ [st]) \<longleftrightarrow>
     source_first sts \<and> (if sts = [] then is_source st else no_source st)"
  by (cases sts) auto

lemma wf_stages_Nil [simp]: "wf_stages []"
  by (simp add: wf_stages_def)

lemma wf_stages_snoc: "wf_stages (sts @ [st]) \<longleftrightarrow> wf_stages sts \<and> stage_ok sts st"
  by (auto simp: wf_stages_def stage_ok_def artifacts_flow_snoc source_first_snoc)

lemma wf_stages_prefix: "wf_stages (sts @ sts') \<Longrightarrow> wf_stages sts"
  by (induction sts' rule: rev_induct) (simp_all add: wf_stages_snoc flip: append_assoc)

lemma wf_new_Pipeline [simp]: "wf_pipeline (new_Pipeline props)"
  by (simp add: wf_pipeline_def)

text \<open>
  C3. Adding a stage to a pipeline gives a well-formed pipeline if and only if the
  pipeline was well formed and the stage meets \<open>addStage_ok\<close>: its name is new, it has
  an action, its action names and its outputs are distinct, every artifact it consumes
  is produced by a stage already in the pipeline, no artifact it produces already
  exists, and it holds source actions exactly when it is the first stage.
\<close>

theorem addStage_wf_iff:
  "wf_pipeline (addStage p st) \<longleftrightarrow> wf_pipeline p \<and> addStage_ok p st"
  by (simp add: wf_pipeline_def addStage_ok_def wf_stages_snoc)

end
