(* ===== verification/CodeBuild.thy ===== *)
theory CodeBuild
  imports Prelude
begin

text \<open>
  The build project of the pipeline (\<^verbatim>\<open>src/infrastructure/lib/infra-stack.ts\<close>, lines
  34-60): its properties, the build image and the build specification.

  The source writes the build specification as an object literal and hands it to
  \<^verbatim>\<open>BuildSpec.fromObject\<close>, which takes any object. The model keeps it as a value
  of the type \<open>Value\<close> of untyped objects, with the keys in the order of the literal,
  and reads it back with \<open>lookup\<close> along a path of keys: \<open>phase_commands\<close> and
  \<open>all_commands\<close> are the readers the theorems speak about.

  \<open>TypedSpec\<close> is the typed view of a build specification (a version, phases with
  their runtime versions and commands, the files and the base directory of the
  artifacts); \<open>encode\<close> writes it as an object and \<open>decode\<close> reads an object as a
  typed specification, failing with \<open>None\<close> when a part is missing or has the wrong
  shape. The typed view is a definition of this development: the repository has no
  codec, it only writes the literal. The view is there to say that the literal of the
  stack has the shape of a build specification and nothing beside it.
\<close>

subsection \<open>Untyped objects\<close>

datatype Value =
    Str string
  | Arr "Value list"
  | Obj "(string \<times> Value) list"

fun field_of :: "Value \<Rightarrow> string \<Rightarrow> Value option" where
  "field_of (Obj kvs) k = map_of kvs k"
| "field_of v k = None"

fun lookup :: "Value \<Rightarrow> string list \<Rightarrow> Value option" where
  "lookup v [] = Some v"
| "lookup v (k # ks) = (case field_of v k of None \<Rightarrow> None | Some v' \<Rightarrow> lookup v' ks)"

fun the_string :: "Value \<Rightarrow> string option" where
  "the_string (Str s) = Some s"
| "the_string v = None"

fun the_strings :: "Value \<Rightarrow> string list option" where
  "the_strings (Arr vs) = those (map the_string vs)"
| "the_strings v = None"

fun the_pairs :: "Value \<Rightarrow> (string \<times> string) list option" where
  "the_pairs (Obj kvs) = those (map (\<lambda>(k, v). map_option (Pair k) (the_string v)) kvs)"
| "the_pairs v = None"

subsection \<open>The build project\<close>

datatype BuildSpec = fromObject Value

datatype LinuxBuildImage = AMAZON_LINUX_2_5

record BuildEnvironment =
  buildImage :: LinuxBuildImage

record PipelineProjectProps =
  buildSpec :: BuildSpec
  environment :: BuildEnvironment

definition buildSpecObject :: Value where
  "buildSpecObject = Obj [
     (''version'', Str ''0.2''),
     (''phases'', Obj [
        (''install'', Obj [
           (''runtime-versions'', Obj [(''nodejs'', Str ''20.x'')]),
           (''commands'', Arr [Str ''cd app'', Str ''npm install pnpm -g'', Str ''pnpm install''])]),
        (''build'', Obj [
           (''commands'', Arr [Str ''pnpm run build''])])]),
     (''artifacts'', Obj [
        (''files'', Arr [Str ''**/*'']),
        (''base-directory'', Str ''app/dist'')])]"

definition projectProps :: PipelineProjectProps where
  "projectProps = \<lparr>buildSpec = fromObject buildSpecObject,
     environment = \<lparr>buildImage = AMAZON_LINUX_2_5\<rparr>\<rparr>"

lemmas [infra_defs] = buildSpecObject_def projectProps_def

subsection \<open>Reading a build specification\<close>

fun spec_object :: "BuildSpec \<Rightarrow> Value" where
  "spec_object (fromObject v) = v"

definition phase_commands :: "BuildSpec \<Rightarrow> string \<Rightarrow> string list" where
  "phase_commands spec phase =
     (case lookup (spec_object spec) [''phases'', phase, ''commands''] of
        None \<Rightarrow> []
      | Some v \<Rightarrow> (case the_strings v of None \<Rightarrow> [] | Some cs \<Rightarrow> cs))"

definition phase_order :: "string list" where
  "phase_order = [''install'', ''pre_build'', ''build'', ''post_build'']"

definition all_commands :: "BuildSpec \<Rightarrow> string list" where
  "all_commands spec = concat (map (phase_commands spec) phase_order)"

subsection \<open>A typed view of a build specification\<close>

record Phase =
  runtime_versions :: "(string \<times> string) list"
  commands :: "string list"

record TypedSpec =
  version :: string
  phases :: "(string \<times> Phase) list"
  files :: "string list"
  base_directory :: "string option"

definition encode_phase :: "Phase \<Rightarrow> Value" where
  "encode_phase ph = Obj (
     (if runtime_versions ph = [] then []
      else [(''runtime-versions'', Obj (map (\<lambda>(k, v). (k, Str v)) (runtime_versions ph)))]) @
     [(''commands'', Arr (map Str (commands ph)))])"

definition encode :: "TypedSpec \<Rightarrow> Value" where
  "encode t = Obj [
     (''version'', Str (version t)),
     (''phases'', Obj (map (\<lambda>(n, ph). (n, encode_phase ph)) (phases t))),
     (''artifacts'', Obj (
        (''files'', Arr (map Str (files t))) #
        (case base_directory t of None \<Rightarrow> [] | Some d \<Rightarrow> [(''base-directory'', Str d)])))]"

definition decode_phase :: "Value \<Rightarrow> Phase option" where
  "decode_phase v = do {
     c \<leftarrow> field_of v ''commands'';
     cs \<leftarrow> the_strings c;
     rvs \<leftarrow> (case field_of v ''runtime-versions'' of None \<Rightarrow> Some [] | Some rv \<Rightarrow> the_pairs rv);
     Some \<lparr>runtime_versions = rvs, commands = cs\<rparr>
   }"

fun decode_phases :: "Value \<Rightarrow> (string \<times> Phase) list option" where
  "decode_phases (Obj kvs) = those (map (\<lambda>(n, v). map_option (Pair n) (decode_phase v)) kvs)"
| "decode_phases v = None"

definition decode :: "Value \<Rightarrow> TypedSpec option" where
  "decode v = do {
     ver \<leftarrow> field_of v ''version'';
     ver \<leftarrow> the_string ver;
     phs \<leftarrow> field_of v ''phases'';
     phs \<leftarrow> decode_phases phs;
     arts \<leftarrow> field_of v ''artifacts'';
     fs \<leftarrow> field_of arts ''files'';
     fs \<leftarrow> the_strings fs;
     dir \<leftarrow> (case field_of arts ''base-directory'' of None \<Rightarrow> Some None
              | Some d \<Rightarrow> map_option Some (the_string d));
     Some \<lparr>version = ver, phases = phs, files = fs, base_directory = dir\<rparr>
   }"

definition wf_spec :: "TypedSpec \<Rightarrow> bool" where
  "wf_spec t \<longleftrightarrow>
     version t \<in> set [''0.1'', ''0.2''] \<and>
     distinct (map fst (phases t)) \<and>
     list_all (\<lambda>(n, ph). n \<in> set phase_order \<and> commands ph \<noteq> []) (phases t) \<and>
     files t \<noteq> []"

subsection \<open>Paths\<close>

lemma lookup_Str [simp]: "lookup (Str s) ks = (if ks = [] then Some (Str s) else None)"
  by (cases ks) auto

lemma lookup_Arr [simp]: "lookup (Arr vs) ks = (if ks = [] then Some (Arr vs) else None)"
  by (cases ks) auto

lemma those_map_Some [simp]: "those (map (\<lambda>x. Some (f x)) xs) = Some (map f xs)"
  by (induction xs) simp_all

lemma the_strings_Strs [simp]: "the_strings (Arr (map Str ss)) = Some ss"
  by (simp add: comp_def)

lemma the_pairs_Strs [simp]: "the_pairs (Obj (map (\<lambda>(k, v). (k, Str v)) kvs)) = Some kvs"
  by (simp add: comp_def case_prod_unfold)

subsection \<open>The typed view and the object\<close>

lemma field_of_encode_phase [simp]:
  "field_of (encode_phase ph) ''commands'' = Some (Arr (map Str (commands ph)))"
  "field_of (encode_phase ph) ''runtime-versions'' =
     (if runtime_versions ph = [] then None
      else Some (Obj (map (\<lambda>(k, v). (k, Str v)) (runtime_versions ph))))"
  by (simp_all add: encode_phase_def)

lemma decode_phase_encode [simp]: "decode_phase (encode_phase ph) = Some ph"
  by (simp add: decode_phase_def del: the_strings.simps the_pairs.simps)

lemma decode_phases_encode [simp]:
  "decode_phases (Obj (map (\<lambda>(n, ph). (n, encode_phase ph)) phs)) = Some phs"
  by (simp add: comp_def case_prod_unfold)

text \<open>
  Reading back the object of a typed build specification gives the specification
  again: the typed view loses no setting.
\<close>

lemma decode_encode: "decode (encode t) = Some t"
  by (cases "base_directory t")
    (simp_all add: decode_def encode_def del: the_strings.simps decode_phases.simps)

subsection \<open>The build specification of the stack\<close>

text \<open>
  C15. Read in the order in which the build service runs the phases, the build
  specification of the project changes into the directory \<^verbatim>\<open>app\<close>, installs the
  package manager, installs the dependencies and then runs the build; the install
  phase asks for the Node.js runtime 20.x.
\<close>

theorem build_commands_in_order:
  "all_commands (buildSpec projectProps) =
     [''cd app'', ''npm install pnpm -g'', ''pnpm install'', ''pnpm run build''] \<and>
   lookup (spec_object (buildSpec projectProps))
     [''phases'', ''install'', ''runtime-versions'', ''nodejs''] = Some (Str ''20.x'')"
  by (simp add: all_commands_def phase_commands_def phase_order_def infra_defs)

text \<open>
  C16. The object the stack passes to \<^verbatim>\<open>BuildSpec.fromObject\<close> is a build
  specification: it reads as version 0.2 with an install phase and a build phase, the
  files and the base directory of the artifacts, it is the object of that typed
  specification, and the specification is well formed (a known version, phases the
  build service knows, each with a command, and at least one file pattern).
\<close>

theorem buildSpec_typed:
  "decode (spec_object (buildSpec projectProps)) = Some \<lparr>
     version = ''0.2'',
     phases = [
       (''install'', \<lparr>runtime_versions = [(''nodejs'', ''20.x'')],
          commands = [''cd app'', ''npm install pnpm -g'', ''pnpm install'']\<rparr>),
       (''build'', \<lparr>runtime_versions = [], commands = [''pnpm run build'']\<rparr>)],
     files = [''**/*''],
     base_directory = Some ''app/dist''\<rparr> \<and>
   map_option encode (decode buildSpecObject) = Some buildSpecObject \<and>
   map_option wf_spec (decode buildSpecObject) = Some True"
  by (simp add: decode_def decode_phase_def encode_def encode_phase_def wf_spec_def
      phase_order_def infra_defs)

end
