(* ===== verification/S3.thy ===== *)
theory S3
  imports Prelude
begin

text \<open>
  The storage bucket that receives the built site and serves it
  (\<^verbatim>\<open>src/infrastructure/lib/infra-stack.ts\<close>, lines 65-75).

  \<open>BucketProps\<close> has the four properties of the object literal; \<open>bucketProps\<close> is the
  literal. The predicates below say what the settings mean together: a bucket is a
  website when it has an index document; anonymous reads succeed when the bucket asks
  for public read access and neither of the two settings that would defeat a public
  bucket policy is on.
\<close>

datatype RemovalPolicy = DESTROY | RETAIN | SNAPSHOT | RETAIN_ON_UPDATE_OR_DELETE

record BlockPublicAccessOptions =
  blockPublicAcls :: bool
  blockPublicPolicy :: bool
  ignorePublicAcls :: bool
  restrictPublicBuckets :: bool

record BucketProps =
  websiteIndexDocument :: string
  removalPolicy :: RemovalPolicy
  blockPublicAccess :: BlockPublicAccessOptions
  publicReadAccess :: bool

definition bucketProps :: BucketProps where
  "bucketProps = \<lparr>
     websiteIndexDocument = ''index.html'',
     removalPolicy = DESTROY,
     blockPublicAccess = \<lparr>
       blockPublicAcls = False,
       blockPublicPolicy = False,
       ignorePublicAcls = False,
       restrictPublicBuckets = False\<rparr>,
     publicReadAccess = True\<rparr>"

lemmas [infra_defs] = bucketProps_def

subsection \<open>What the settings mean\<close>

definition is_website :: "BucketProps \<Rightarrow> bool" where
  "is_website b \<longleftrightarrow> websiteIndexDocument b \<noteq> []"

definition policy_blocked :: "BlockPublicAccessOptions \<Rightarrow> bool" where
  "policy_blocked opts \<longleftrightarrow> blockPublicPolicy opts \<or> restrictPublicBuckets opts"

definition blocks_nothing :: "BlockPublicAccessOptions \<Rightarrow> bool" where
  "blocks_nothing opts \<longleftrightarrow>
     \<not> blockPublicAcls opts \<and> \<not> blockPublicPolicy opts \<and> \<not> ignorePublicAcls opts \<and> \<not> restrictPublicBuckets opts"

definition publicly_readable :: "BucketProps \<Rightarrow> bool" where
  "publicly_readable b \<longleftrightarrow> publicReadAccess b \<and> \<not> policy_blocked (blockPublicAccess b)"

definition wf_bucket :: "BucketProps \<Rightarrow> bool" where
  "wf_bucket b \<longleftrightarrow> (publicReadAccess b \<longrightarrow> \<not> policy_blocked (blockPublicAccess b))"

definition survives_stack_deletion :: "BucketProps \<Rightarrow> bool" where
  "survives_stack_deletion b \<longleftrightarrow> removalPolicy b \<noteq> DESTROY"

lemmas s3_wf_defs [wf_defs] =
  is_website_def policy_blocked_def blocks_nothing_def publicly_readable_def wf_bucket_def
  survives_stack_deletion_def

subsection \<open>The bucket of the stack\<close>

text \<open>
  C17. The bucket of the stack is a website bucket with index document
  \<^verbatim>\<open>index.html\<close>; it asks for public read access and none of its four
  public-access blocks is on, so the request is consistent and anonymous reads
  succeed; its removal policy is \<^verbatim>\<open>DESTROY\<close>.
\<close>

theorem bucket_public_website:
  "is_website bucketProps \<and> websiteIndexDocument bucketProps = ''index.html'' \<and>
   blocks_nothing (blockPublicAccess bucketProps) \<and> wf_bucket bucketProps \<and>
   publicly_readable bucketProps \<and> \<not> survives_stack_deletion bucketProps"
  by (simp add: wf_defs infra_defs)

end
