(* ===== verification/CloudFront.thy ===== *)
theory CloudFront
  imports Prelude
begin

text \<open>
  The content-delivery distribution in front of the bucket and its origin access
  identity (\<^verbatim>\<open>src/infrastructure/lib/infra-stack.ts\<close>, lines 77-94).

  The origin refers to the bucket and to the origin access identity by their construct
  ids. \<open>distributionProps\<close> is the object literal of the source, with the two
  references as parameters. \<open>respond\<close> states what the list of custom error responses
  asks of the distribution: an origin status with an entry is replaced by the entry's
  status and page, every other status is passed on.
\<close>

subsection \<open>The origin access identity\<close>

record OriginAccessIdentityProps =
  comment :: string

definition oaiProps :: OriginAccessIdentityProps where
  "oaiProps = \<lparr>comment = ''AwsIDFExampleBucket OAI''\<rparr>"

subsection \<open>The distribution\<close>

datatype HttpMethod = GET | HEAD | OPTIONS | PUT | PATCH | POST | DELETE

datatype AllowedMethods = AllowedMethods "HttpMethod list"

definition ALLOW_GET_HEAD_OPTIONS :: AllowedMethods where
  "ALLOW_GET_HEAD_OPTIONS = AllowedMethods [GET, HEAD, OPTIONS]"

datatype ViewerProtocolPolicy = HTTPS_ONLY | REDIRECT_TO_HTTPS | ALLOW_ALL

record S3OriginProps =
  originAccessIdentity :: construct_id

datatype Origin = S3Origin construct_id S3OriginProps

record BehaviorOptions =
  origin :: Origin
  viewerProtocolPolicy :: ViewerProtocolPolicy
  allowedMethods :: AllowedMethods

record ErrorResponse =
  httpStatus :: nat
  responsePagePath :: string
  responseHttpStatus :: nat

record DistributionProps =
  defaultBehavior :: BehaviorOptions
  errorResponses :: "ErrorResponse list"

definition distributionProps :: "construct_id \<Rightarrow> construct_id \<Rightarrow> DistributionProps" where
  "distributionProps bucket awsIdfExample = \<lparr>
     defaultBehavior = \<lparr>
       origin = S3Origin bucket \<lparr>originAccessIdentity = awsIdfExample\<rparr>,
       viewerProtocolPolicy = ALLOW_ALL,
       allowedMethods = ALLOW_GET_HEAD_OPTIONS\<rparr>,
     errorResponses = [
       \<lparr>httpStatus = 403,
        responsePagePath = ''/error.html'',
        responseHttpStatus = 200\<rparr>]\<rparr>"

lemmas [infra_defs] = oaiProps_def ALLOW_GET_HEAD_OPTIONS_def distributionProps_def

subsection \<open>Reading a distribution\<close>

fun origin_bucket :: "Origin \<Rightarrow> construct_id" where
  "origin_bucket (S3Origin b p) = b"

fun origin_identity :: "Origin \<Rightarrow> construct_id" where
  "origin_identity (S3Origin b p) = originAccessIdentity p"

fun methods :: "AllowedMethods \<Rightarrow> HttpMethod list" where
  "methods (AllowedMethods ms) = ms"

fun safe_method :: "HttpMethod \<Rightarrow> bool" where
  "safe_method GET = True"
| "safe_method HEAD = True"
| "safe_method OPTIONS = True"
| "safe_method m = False"

definition read_only :: "DistributionProps \<Rightarrow> bool" where
  "read_only d \<longleftrightarrow> list_all safe_method (methods (allowedMethods (defaultBehavior d)))"

fun accepts_http :: "ViewerProtocolPolicy \<Rightarrow> bool" where
  "accepts_http ALLOW_ALL = True"
| "accepts_http p = False"

subsection \<open>Custom error responses\<close>

fun respond_with :: "ErrorResponse list \<Rightarrow> nat \<Rightarrow> nat \<times> string option" where
  "respond_with [] status = (status, None)"
| "respond_with (r # rs) status =
     (if httpStatus r = status then (responseHttpStatus r, Some (responsePagePath r))
      else respond_with rs status)"

definition respond :: "DistributionProps \<Rightarrow> nat \<Rightarrow> nat \<times> string option" where
  "respond d status = respond_with (errorResponses d) status"

definition is_error_status :: "nat \<Rightarrow> bool" where
  "is_error_status n \<longleftrightarrow> 400 \<le> n \<and> n < 600"

definition wf_error_response :: "ErrorResponse \<Rightarrow> bool" where
  "wf_error_response r \<longleftrightarrow>
     is_error_status (httpStatus r) \<and> take 1 (responsePagePath r) = ''/'' \<and>
     100 \<le> responseHttpStatus r \<and> responseHttpStatus r < 600"

definition wf_distribution :: "DistributionProps \<Rightarrow> bool" where
  "wf_distribution d \<longleftrightarrow>
     list_all wf_error_response (errorResponses d) \<and>
     distinct (map httpStatus (errorResponses d)) \<and>
     methods (allowedMethods (defaultBehavior d)) \<noteq> []"

lemmas cloudfront_wf_defs [wf_defs] =
  read_only_def respond_def is_error_status_def wf_error_response_def wf_distribution_def

lemma respond_with_unlisted:
  "status \<notin> set (map httpStatus rs) \<Longrightarrow> respond_with rs status = (status, None)"
  by (induction rs) auto

lemma respond_with_listed:
  "r \<in> set rs \<Longrightarrow> distinct (map httpStatus rs) \<Longrightarrow>
   respond_with rs (httpStatus r) = (responseHttpStatus r, Some (responsePagePath r))"
  by (induction rs) (auto simp: rev_image_eqI)

lemma respond_with_success:
  "list_all wf_error_response rs \<Longrightarrow> \<not> is_error_status status \<Longrightarrow>
   respond_with rs status = (status, None)"
  by (induction rs) (auto simp: wf_error_response_def)

subsection \<open>The distribution of the stack\<close>

text \<open>
  C18. Whatever bucket and identity the distribution of the stack is given, it
  answers an origin status 403 with status 200 and the page \<^verbatim>\<open>/error.html\<close>, and
  passes every other origin status on unchanged with no replacement page.
\<close>

theorem error_page_for_403:
  "respond (distributionProps b a) status =
     (if status = 403 then (200, Some ''/error.html'') else (status, None))"
  by (simp add: respond_def infra_defs)

text \<open>
  C19. The distribution of the stack is well formed and read-only: it forwards the
  methods GET, HEAD and OPTIONS and no method that changes the origin; its viewer
  protocol policy accepts plain HTTP.
\<close>

theorem distribution_read_only:
  "wf_distribution (distributionProps b a) \<and> read_only (distributionProps b a) \<and>
   methods (allowedMethods (defaultBehavior (distributionProps b a))) = [GET, HEAD, OPTIONS] \<and>
   accepts_http (viewerProtocolPolicy (defaultBehavior (distributionProps b a)))"
  by (simp add: wf_defs infra_defs)

end
