(* ===== verification/Cognito.thy ===== *)
theory Cognito
  imports Prelude "HOL-Library.Char_ord"
begin

text \<open>
  The user pool and its hosted domain
  (\<^verbatim>\<open>src/infrastructure/lib/infra-stack.ts\<close>, lines 103-109).

  The source creates the pool with no properties and then calls \<open>addDomain\<close> on it,
  which puts a domain construct under the pool. The pool is therefore a small scope of
  its own: the list of its domains by id, in creation order. \<open>valid_prefix\<close> is the
  condition on the prefix of a hosted domain: a non-empty string of lower-case
  letters, digits and hyphens of at most 63 characters.
\<close>

record CognitoDomainOptions =
  domainPrefix :: string

record UserPoolDomainOptions =
  cognitoDomain :: CognitoDomainOptions

record UserPool =
  domains :: "UserPoolDomainOptions entries"

definition new_UserPool :: UserPool where
  "new_UserPool = \<lparr>domains = []\<rparr>"

definition addDomain :: "UserPool \<Rightarrow> construct_id \<Rightarrow> UserPoolDomainOptions \<Rightarrow> UserPool" where
  "addDomain pool i opts = pool\<lparr>domains := add_entry i opts (domains pool)\<rparr>"

definition uniquePrefix :: string where
  "uniquePrefix = ''idf-example-2024''"

definition domainOptions :: UserPoolDomainOptions where
  "domainOptions = \<lparr>cognitoDomain = \<lparr>domainPrefix = uniquePrefix\<rparr>\<rparr>"

lemmas [infra_defs] = new_UserPool_def addDomain_def uniquePrefix_def domainOptions_def

subsection \<open>Domain prefixes\<close>

definition prefix_char :: "char \<Rightarrow> bool" where
  "prefix_char c \<longleftrightarrow>
     (CHR ''a'' \<le> c \<and> c \<le> CHR ''z'') \<or> (CHR ''0'' \<le> c \<and> c \<le> CHR ''9'') \<or> c = CHR ''-''"

definition valid_prefix :: "string \<Rightarrow> bool" where
  "valid_prefix s \<longleftrightarrow> s \<noteq> [] \<and> length s \<le> 63 \<and> list_all prefix_char s"

definition domain_prefixes :: "UserPool \<Rightarrow> string list" where
  "domain_prefixes pool = map (\<lambda>(i, d). domainPrefix (cognitoDomain d)) (domains pool)"

definition wf_pool :: "UserPool \<Rightarrow> bool" where
  "wf_pool pool \<longleftrightarrow>
     distinct (ids (domains pool)) \<and> list_all valid_prefix (domain_prefixes pool) \<and>
     distinct (domain_prefixes pool)"

lemmas cognito_wf_defs [wf_defs] = valid_prefix_def domain_prefixes_def wf_pool_def

lemma domain_prefixes_addDomain [simp]:
  "domain_prefixes (addDomain pool i opts) = domain_prefixes pool @ [domainPrefix (cognitoDomain opts)]"
  by (simp add: domain_prefixes_def addDomain_def add_entry_def)

lemma domains_addDomain [simp]: "domains (addDomain pool i opts) = add_entry i opts (domains pool)"
  by (simp add: addDomain_def)

lemma addDomain_wf_iff:
  "wf_pool (addDomain pool i opts) \<longleftrightarrow>
     wf_pool pool \<and> fresh i (domains pool) \<and> valid_prefix (domainPrefix (cognitoDomain opts)) \<and>
     domainPrefix (cognitoDomain opts) \<notin> set (domain_prefixes pool)"
  by (auto simp: wf_pool_def)

subsection \<open>The user pool of the stack\<close>

text \<open>
  C20. The prefix the stack gives to the hosted domain of its user pool is a valid
  domain prefix, and the pool with the domain \<^verbatim>\<open>default\<close> added to it is well
  formed and has exactly that one domain.
\<close>

theorem domain_prefix_valid:
  "valid_prefix uniquePrefix \<and>
   wf_pool (addDomain new_UserPool ''default'' domainOptions) \<and>
   domain_prefixes (addDomain new_UserPool ''default'' domainOptions) = [''idf-example-2024'']"
  by (simp add: wf_defs infra_defs prefix_char_def add_entry_def)

end
