(* ===== verification/Constructs.thy ===== *)
theory Constructs
  imports CodePipeline CodeBuild S3 CloudFront Cognito
begin

text \<open>
  The scope in which the stack creates its constructs, and the calls that change it.

  A \<open>Stack\<close> is what \<^verbatim>\<open>super(scope, id, props)\<close> sets up and the rest of the
  constructor fills: the three arguments, kept as they are, the number of artifacts
  allocated so far, and the constructs created in it, by id, in creation order. The
  parent scope and the stack properties are values of the library that the constructor
  never looks into, so their types are parameters.

  Every statement of the constructor that changes the scope is one of four calls:
  \<^item> \<^verbatim>\<open>new Artifact()\<close> is \<open>new_Artifact\<close>,
  \<^item> \<^verbatim>\<open>new C(this, id, props)\<close> is \<open>new_construct\<close>,
  \<^item> \<^verbatim>\<open>userPool.addDomain(id, options)\<close> is \<open>pool_addDomain\<close>,
  \<^item> \<^verbatim>\<open>pipeline.addStage(props)\<close> is \<open>pipeline_addStage\<close>.
  Each is a computation in the state monad over the stack, built from a plain function
  on stacks (\<open>alloc\<close>, \<open>add_child\<close>, \<open>update_child\<close>).

  The record and the four plain functions model the library, not code of the
  repository: the source only makes the calls. What state a call leaves behind is
  taken from what the call site passes (an id and a resource, a stage, a domain). The
  calls make no check of their own; when a call is legal is stated in the theory
  \<open>Legality\<close>.
\<close>

subsection \<open>Resources and the stack\<close>

datatype Resource =
    PipelineProject PipelineProjectProps
  | Bucket BucketProps
  | OriginAccessIdentity OriginAccessIdentityProps
  | Distribution DistributionProps
  | UserPool UserPool
  | Pipeline Pipeline

record ('s, 'p) Stack =
  stackScope :: 's
  stackId :: construct_id
  stackProps :: "'p option"
  artifacts :: nat
  children :: "Resource entries"

definition Stack_init :: "'s \<Rightarrow> construct_id \<Rightarrow> 'p option \<Rightarrow> ('s, 'p) Stack" where
  "Stack_init scope i props =
     \<lparr>stackScope = scope, stackId = i, stackProps = props, artifacts = 0, children = []\<rparr>"

subsection \<open>Changing the stack\<close>

definition alloc :: "('s, 'p) Stack \<Rightarrow> ('s, 'p) Stack" where
  "alloc s = s\<lparr>artifacts := Suc (artifacts s)\<rparr>"

definition add_child :: "construct_id \<Rightarrow> Resource \<Rightarrow> ('s, 'p) Stack \<Rightarrow> ('s, 'p) Stack" where
  "add_child i r s = s\<lparr>children := add_entry i r (children s)\<rparr>"

definition update_child ::
  "construct_id \<Rightarrow> (Resource \<Rightarrow> Resource) \<Rightarrow> ('s, 'p) Stack \<Rightarrow> ('s, 'p) Stack" where
  "update_child i f s = s\<lparr>children := map_entry i f (children s)\<rparr>"

fun on_pipeline :: "(Pipeline \<Rightarrow> Pipeline) \<Rightarrow> Resource \<Rightarrow> Resource" where
  "on_pipeline f (Pipeline p) = Pipeline (f p)"
| "on_pipeline f r = r"

fun on_pool :: "(UserPool \<Rightarrow> UserPool) \<Rightarrow> Resource \<Rightarrow> Resource" where
  "on_pool f (UserPool p) = UserPool (f p)"
| "on_pool f r = r"

definition add_domain ::
  "construct_id \<Rightarrow> construct_id \<Rightarrow> UserPoolDomainOptions \<Rightarrow> ('s, 'p) Stack \<Rightarrow> ('s, 'p) Stack" where
  "add_domain pool i opts = update_child pool (on_pool (\<lambda>p. addDomain p i opts))"

definition add_stage :: "construct_id \<Rightarrow> StageProps \<Rightarrow> ('s, 'p) Stack \<Rightarrow> ('s, 'p) Stack" where
  "add_stage pl st = update_child pl (on_pipeline (\<lambda>p. addStage p st))"

subsection \<open>The calls of the constructor\<close>

definition new_Artifact :: "(('s, 'p) Stack, Artifact) state" where
  "new_Artifact = State (\<lambda>s. (Artifact (artifacts s), alloc s))"

definition new_construct :: "construct_id \<Rightarrow> Resource \<Rightarrow> (('s, 'p) Stack, construct_id) state" where
  "new_construct i r = State (\<lambda>s. (i, add_child i r s))"

definition pool_addDomain ::
  "construct_id \<Rightarrow> construct_id \<Rightarrow> UserPoolDomainOptions \<Rightarrow>
   (('s, 'p) Stack, construct_id \<times> construct_id) state" where
  "pool_addDomain pool i opts = State (\<lambda>s. ((pool, i), add_domain pool i opts s))"

definition pipeline_addStage :: "construct_id \<Rightarrow> StageProps \<Rightarrow> (('s, 'p) Stack, unit) state" where
  "pipeline_addStage pl st = State (\<lambda>s. ((), add_stage pl st s))"

lemma run_state_calls [simp]:
  "run_state new_Artifact s = (Artifact (artifacts s), alloc s)"
  "run_state (new_construct i r) s = (i, add_child i r s)"
  "run_state (pool_addDomain pool j opts) s = ((pool, j), add_domain pool j opts s)"
  "run_state (pipeline_addStage pl st) s = ((), add_stage pl st s)"
  by (simp_all add: new_Artifact_def new_construct_def pool_addDomain_def pipeline_addStage_def)

subsection \<open>Looking constructs up\<close>

datatype Kind = KProject | KBucket | KIdentity | KDistribution | KUserPool | KPipeline

fun kind_of :: "Resource \<Rightarrow> Kind" where
  "kind_of (PipelineProject p) = KProject"
| "kind_of (Bucket p) = KBucket"
| "kind_of (OriginAccessIdentity p) = KIdentity"
| "kind_of (Distribution p) = KDistribution"
| "kind_of (UserPool p) = KUserPool"
| "kind_of (Pipeline p) = KPipeline"

definition find_child :: "('s, 'p) Stack \<Rightarrow> construct_id \<Rightarrow> Resource option" where
  "find_child s i = find_entry (children s) i"

definition has_kind :: "('s, 'p) Stack \<Rightarrow> construct_id \<times> Kind \<Rightarrow> bool" where
  "has_kind s = (\<lambda>(i, k). map_option kind_of (find_child s i) = Some k)"

fun the_pipeline :: "Resource option \<Rightarrow> Pipeline option" where
  "the_pipeline (Some (Pipeline p)) = Some p"
| "the_pipeline r = None"

fun the_bucket :: "Resource option \<Rightarrow> BucketProps option" where
  "the_bucket (Some (Bucket b)) = Some b"
| "the_bucket r = None"

fun the_distribution :: "Resource option \<Rightarrow> DistributionProps option" where
  "the_distribution (Some (Distribution d)) = Some d"
| "the_distribution r = None"

fun the_pool :: "Resource option \<Rightarrow> UserPool option" where
  "the_pool (Some (UserPool p)) = Some p"
| "the_pool r = None"

fun the_project :: "Resource option \<Rightarrow> PipelineProjectProps option" where
  "the_project (Some (PipelineProject p)) = Some p"
| "the_project r = None"

subsection \<open>References and artifacts of a resource\<close>

fun action_refs :: "Action \<Rightarrow> (construct_id \<times> Kind) list" where
  "action_refs (GitHubSourceAction p) = []"
| "action_refs (CodeBuildAction p) = [(project p, KProject)]"
| "action_refs (S3DeployAction p) = [(bucket p, KBucket)]"

definition stage_refs :: "StageProps \<Rightarrow> (construct_id \<times> Kind) list" where
  "stage_refs st = concat (map action_refs (actions st))"

definition stage_artifacts :: "StageProps \<Rightarrow> Artifact list" where
  "stage_artifacts st = stage_inputs st @ stage_outputs st"

fun resource_refs :: "Resource \<Rightarrow> (construct_id \<times> Kind) list" where
  "resource_refs (Distribution d) =
     [(origin_bucket (origin (defaultBehavior d)), KBucket),
      (origin_identity (origin (defaultBehavior d)), KIdentity)]"
| "resource_refs (Pipeline p) = concat (map stage_refs (stages p))"
| "resource_refs r = []"

fun resource_artifacts :: "Resource \<Rightarrow> Artifact list" where
  "resource_artifacts (Pipeline p) = concat (map stage_artifacts (stages p))"
| "resource_artifacts r = []"

fun allocated :: "('s, 'p) Stack \<Rightarrow> Artifact \<Rightarrow> bool" where
  "allocated s (Artifact n) \<longleftrightarrow> n < artifacts s"

subsection \<open>What each change leaves alone\<close>

lemma Stack_init_simps [simp]:
  "stackScope (Stack_init scope i props) = scope"
  "stackId (Stack_init scope i props) = i"
  "stackProps (Stack_init scope i props) = props"
  "artifacts (Stack_init scope i props) = 0"
  "children (Stack_init scope i props) = []"
  by (simp_all add: Stack_init_def)

lemma alloc_simps [simp]:
  "stackScope (alloc s) = stackScope s"
  "stackId (alloc s) = stackId s"
  "stackProps (alloc s) = stackProps s"
  "artifacts (alloc s) = Suc (artifacts s)"
  "children (alloc s) = children s"
  by (simp_all add: alloc_def)

lemma add_child_simps [simp]:
  "stackScope (add_child i r s) = stackScope s"
  "stackId (add_child i r s) = stackId s"
  "stackProps (add_child i r s) = stackProps s"
  "artifacts (add_child i r s) = artifacts s"
  "children (add_child i r s) = add_entry i r (children s)"
  by (simp_all add: add_child_def)

lemma update_child_simps [simp]:
  "stackScope (update_child i f s) = stackScope s"
  "stackId (update_child i f s) = stackId s"
  "stackProps (update_child i f s) = stackProps s"
  "artifacts (update_child i f s) = artifacts s"
  "children (update_child i f s) = map_entry i f (children s)"
  by (simp_all add: update_child_def)

lemmas change_defs = add_domain_def add_stage_def

lemma find_child_simps [simp]:
  "find_child (Stack_init scope i props) j = None"
  "find_child (alloc s) j = find_child s j"
  "find_child (update_child i f s) j =
     (if j = i then map_option f (find_child s j) else find_child s j)"
  by (simp_all add: find_child_def)

lemma find_child_add_child [simp]:
  "fresh i (children s) \<Longrightarrow>
   find_child (add_child i r s) j = (if j = i then Some r else find_child s j)"
  by (simp add: find_child_def)

lemma kind_of_on [simp]:
  "kind_of (on_pipeline f r) = kind_of r"
  "kind_of (on_pool g r) = kind_of r"
  by (cases r; simp)+

end
