(* ===== verification/Legality.thy ===== *)
theory Legality
  imports Constructs
begin

text \<open>
  When a call of the constructor is legal, and what legal calls keep true.

  \<open>wf_resource\<close> says that a resource is well formed inside a stack: its own settings
  are consistent (\<open>wf_props\<close>), every construct it refers to exists in the stack and is
  of the kind the reference expects, and every artifact it mentions has been
  allocated. \<open>inv\<close> asks this of every construct of the stack and that no two
  constructs share an id.

  \<open>step\<close> relates a stack to the stack after one legal call; \<open>steps\<close> is any number of
  them. The rules for \<open>steps\<close> in \<open>steps_intros\<close> let a proof follow a sequence of
  calls from the last one back to the first.
\<close>

subsection \<open>Well-formed resources\<close>

definition refs_ok :: "('s, 'p) Stack \<Rightarrow> (construct_id \<times> Kind) list \<Rightarrow> bool" where
  "refs_ok s rs \<longleftrightarrow> list_all (has_kind s) rs"

definition artifacts_ok :: "('s, 'p) Stack \<Rightarrow> Artifact list \<Rightarrow> bool" where
  "artifacts_ok s as \<longleftrightarrow> list_all (allocated s) as"

fun wf_props :: "Resource \<Rightarrow> bool" where
  "wf_props (Bucket b) = wf_bucket b"
| "wf_props (Distribution d) = wf_distribution d"
| "wf_props (UserPool p) = wf_pool p"
| "wf_props (Pipeline p) = wf_pipeline p"
| "wf_props r = True"

definition wf_resource :: "('s, 'p) Stack \<Rightarrow> Resource \<Rightarrow> bool" where
  "wf_resource s r \<longleftrightarrow>
     wf_props r \<and> refs_ok s (resource_refs r) \<and> artifacts_ok s (resource_artifacts r)"

definition inv :: "('s, 'p) Stack \<Rightarrow> bool" where
  "inv s \<longleftrightarrow> distinct (ids (children s)) \<and> list_all (\<lambda>(i, r). wf_resource s r) (children s)"

subsection \<open>Legal calls\<close>

definition construct_legal :: "construct_id \<Rightarrow> Resource \<Rightarrow> ('s, 'p) Stack \<Rightarrow> bool" where
  "construct_legal i r s \<longleftrightarrow> fresh i (children s) \<and> wf_resource s r"

definition domain_legal ::
  "construct_id \<Rightarrow> construct_id \<Rightarrow> UserPoolDomainOptions \<Rightarrow> ('s, 'p) Stack \<Rightarrow> bool" where
  "domain_legal pool i opts s \<longleftrightarrow>
     (case the_pool (find_child s pool) of
        None \<Rightarrow> False
      | Some p \<Rightarrow> fresh i (domains p) \<and> valid_prefix (domainPrefix (cognitoDomain opts)) \<and>
          domainPrefix (cognitoDomain opts) \<notin> set (domain_prefixes p))"

definition stage_legal :: "construct_id \<Rightarrow> StageProps \<Rightarrow> ('s, 'p) Stack \<Rightarrow> bool" where
  "stage_legal pl st s \<longleftrightarrow>
     (case the_pipeline (find_child s pl) of None \<Rightarrow> False | Some p \<Rightarrow> addStage_ok p st) \<and>
     refs_ok s (stage_refs st) \<and> artifacts_ok s (stage_artifacts st)"

inductive step :: "('s, 'p) Stack \<Rightarrow> ('s, 'p) Stack \<Rightarrow> bool" where
  artifact: "step s (alloc s)"
| construct: "construct_legal i r s \<Longrightarrow> step s (add_child i r s)"
| domain: "domain_legal pool i opts s \<Longrightarrow> step s (add_domain pool i opts s)"
| stage: "stage_legal pl st s \<Longrightarrow> step s (add_stage pl st s)"

inductive steps :: "('s, 'p) Stack \<Rightarrow> ('s, 'p) Stack \<Rightarrow> bool" where
  start: "steps s s"
| more: "steps s t \<Longrightarrow> step t u \<Longrightarrow> steps s u"

lemmas legal_defs = construct_legal_def domain_legal_def stage_legal_def

lemma steps_alloc: "steps s t \<Longrightarrow> steps s (alloc t)"
  by (blast intro: steps.more step.artifact)

lemma steps_add_child: "steps s t \<Longrightarrow> construct_legal i r t \<Longrightarrow> steps s (add_child i r t)"
  by (blast intro: steps.more step.construct)

lemma steps_add_domain:
  "steps s t \<Longrightarrow> domain_legal pool i opts t \<Longrightarrow> steps s (add_domain pool i opts t)"
  by (blast intro: steps.more step.domain)

lemma steps_add_stage: "steps s t \<Longrightarrow> stage_legal pl st t \<Longrightarrow> steps s (add_stage pl st t)"
  by (blast intro: steps.more step.stage)

lemmas steps_intros = steps_alloc steps_add_child steps_add_domain steps_add_stage steps.start

subsection \<open>Selecting a resource of a kind\<close>

lemma the_pool_Some [simp]: "the_pool x = Some p \<longleftrightarrow> x = Some (UserPool p)"
  by (cases x rule: the_pool.cases) auto

lemma the_pipeline_Some [simp]: "the_pipeline x = Some p \<longleftrightarrow> x = Some (Pipeline p)"
  by (cases x rule: the_pipeline.cases) auto

lemma the_bucket_Some [simp]: "the_bucket x = Some b \<longleftrightarrow> x = Some (Bucket b)"
  by (cases x rule: the_bucket.cases) auto

lemma the_distribution_Some [simp]:
  "the_distribution x = Some d \<longleftrightarrow> x = Some (Distribution d)"
  by (cases x rule: the_distribution.cases) auto

lemma the_project_Some [simp]: "the_project x = Some q \<longleftrightarrow> x = Some (PipelineProject q)"
  by (cases x rule: the_project.cases) auto

subsection \<open>A legal call never removes a construct or an artifact\<close>

lemma has_kind_alloc [simp]: "has_kind (alloc s) x = has_kind s x"
  by (simp add: has_kind_def split: prod.split)

lemma has_kind_add_child:
  "fresh i (children s) \<Longrightarrow> has_kind s x \<Longrightarrow> has_kind (add_child i r s) x"
  by (auto simp: has_kind_def fresh_find_entry find_child_def split: prod.splits)

lemma has_kind_update_child:
  "(\<And>r. kind_of (f r) = kind_of r) \<Longrightarrow> has_kind (update_child i f s) x = has_kind s x"
  by (auto simp: has_kind_def option.map_comp comp_def split: prod.splits)

lemma step_has_kind: "step s t \<Longrightarrow> has_kind s x \<Longrightarrow> has_kind t x"
  by (induction rule: step.induct)
    (simp_all add: has_kind_add_child has_kind_update_child change_defs construct_legal_def)

lemma step_artifacts: "step s t \<Longrightarrow> artifacts s \<le> artifacts t"
  by (induction rule: step.induct) (simp_all add: change_defs)

lemma step_allocated: "step s t \<Longrightarrow> allocated s a \<Longrightarrow> allocated t a"
  using step_artifacts [of s t] by (cases a) auto

lemma step_refs_ok: "step s t \<Longrightarrow> refs_ok s rs \<Longrightarrow> refs_ok t rs"
  by (auto simp: refs_ok_def list_all_iff intro: step_has_kind)

lemma step_artifacts_ok: "step s t \<Longrightarrow> artifacts_ok s as \<Longrightarrow> artifacts_ok t as"
  by (auto simp: artifacts_ok_def list_all_iff intro: step_allocated)

lemma step_wf_resource: "step s t \<Longrightarrow> wf_resource s r \<Longrightarrow> wf_resource t r"
  by (simp add: wf_resource_def step_refs_ok step_artifacts_ok)

lemma step_wf_children:
  "step s t \<Longrightarrow> list_all (\<lambda>(i, r). wf_resource s r) es \<Longrightarrow>
   list_all (\<lambda>(i, r). wf_resource t r) es"
  by (auto simp: list_all_iff intro: step_wf_resource)

subsection \<open>Legal calls keep the invariant\<close>

lemma wf_resource_UserPool [simp]: "wf_resource s (UserPool p) \<longleftrightarrow> wf_pool p"
  by (simp add: wf_resource_def refs_ok_def artifacts_ok_def)

lemma refs_ok_append [simp]: "refs_ok s (rs @ rs') \<longleftrightarrow> refs_ok s rs \<and> refs_ok s rs'"
  by (simp add: refs_ok_def)

lemma artifacts_ok_append [simp]:
  "artifacts_ok s (as @ as') \<longleftrightarrow> artifacts_ok s as \<and> artifacts_ok s as'"
  by (simp add: artifacts_ok_def)

lemma refs_ok_Nil [simp]: "refs_ok s []"
  by (simp add: refs_ok_def)

lemma artifacts_ok_Nil [simp]: "artifacts_ok s []"
  by (simp add: artifacts_ok_def)

lemma wf_resource_addStage:
  "wf_resource s (Pipeline (addStage p st)) \<longleftrightarrow>
     wf_resource s (Pipeline p) \<and> addStage_ok p st \<and>
     refs_ok s (stage_refs st) \<and> artifacts_ok s (stage_artifacts st)"
  by (auto simp: wf_resource_def wf_pipeline_def addStage_ok_def wf_stages_snoc)

lemma inv_children:
  "inv s \<Longrightarrow> find_child s i = Some r \<Longrightarrow> wf_resource s r"
  by (auto simp: inv_def find_child_def dest: list_all_entries_find)

lemma step_inv: "step s t \<Longrightarrow> inv s \<Longrightarrow> inv t"
proof (induction rule: step.induct)
  case (artifact s)
  then show ?case
    by (auto simp: inv_def intro: step_wf_children [OF step.artifact])
next
  case (construct i r s)
  then have "step s (add_child i r s)"
    by (simp add: step.construct)
  with construct show ?case
    by (auto simp: inv_def construct_legal_def intro: step_wf_children step_wf_resource)
next
  case (domain pool i opts s)
  let ?t = "add_domain pool i opts s"
  have st: "step s ?t"
    by (rule step.domain) fact+
  with domain.prems have "list_all (\<lambda>(j, r). wf_resource ?t r) (children s)"
    by (auto simp: inv_def intro: step_wf_children)
  then have "list_all (\<lambda>(j, r). wf_resource ?t r)
      (map_entry pool (on_pool (\<lambda>p. addDomain p i opts)) (children s))"
  proof (rule list_all_map_entry)
    fix r
    assume "find_entry (children s) pool = Some r" and "wf_resource ?t r"
    with domain.hyps show "wf_resource ?t (on_pool (\<lambda>p. addDomain p i opts) r)"
      by (auto simp: domain_legal_def find_child_def addDomain_wf_iff split: option.splits)
  qed
  with domain.prems show ?case
    by (simp add: inv_def add_domain_def)
next
  case (stage pl st s)
  let ?t = "add_stage pl st s"
  have st: "step s ?t"
    by (rule step.stage) fact+
  with stage.prems have "list_all (\<lambda>(j, r). wf_resource ?t r) (children s)"
    by (auto simp: inv_def intro: step_wf_children)
  then have "list_all (\<lambda>(j, r). wf_resource ?t r)
      (map_entry pl (on_pipeline (\<lambda>p. addStage p st)) (children s))"
  proof (rule list_all_map_entry)
    fix r
    assume "find_entry (children s) pl = Some r" and "wf_resource ?t r"
    with stage.hyps st show "wf_resource ?t (on_pipeline (\<lambda>p. addStage p st) r)"
      by (auto simp: stage_legal_def find_child_def wf_resource_addStage step_refs_ok
          step_artifacts_ok split: option.splits)
  qed
  with stage.prems show ?case
    by (simp add: inv_def add_stage_def)
qed

lemma steps_inv: "steps s t \<Longrightarrow> inv s \<Longrightarrow> inv t"
  by (induction rule: steps.induct) (auto intro: step_inv)

lemma inv_Stack_init [simp]: "inv (Stack_init scope i props)"
  by (simp add: inv_def)

subsection \<open>Reachable stacks\<close>

text \<open>
  C7. Every stack that legal calls build from the empty stack of
  \<^verbatim>\<open>super(scope, id, props)\<close> satisfies the invariant: the ids of its constructs
  are distinct, every reference of a construct leads to a construct of the expected
  kind, every pipeline, bucket, distribution and user pool in it is well formed, and
  every artifact a pipeline mentions has been allocated.
\<close>

theorem reachable_inv:
  assumes "steps (Stack_init scope i props) t"
  shows "inv t"
  using assms by (rule steps_inv) simp

theorem reachable_inv_witness:
  "inv (add_child ''AwsIDFExampleBucket'' (Bucket bucketProps)
     (alloc (Stack_init () ''InfraStack'' (None :: unit option))))"
  by (rule reachable_inv [of "()" "''InfraStack''" None])
    (intro steps_intros, simp add: construct_legal_def wf_resource_def wf_defs infra_defs)

subsection \<open>What the invariant gives a reader of the stack\<close>

lemma kind_of_KBucket: "kind_of r = KBucket \<longleftrightarrow> (\<exists>b. r = Bucket b)"
  by (cases r) simp_all

lemma has_kind_Bucket:
  "has_kind s (i, KBucket) \<longleftrightarrow> (\<exists>b. find_child s i = Some (Bucket b))"
  by (auto simp: has_kind_def kind_of_KBucket)

lemma in_stage_refs:
  "st \<in> set (stages p) \<Longrightarrow> a \<in> set (actions st) \<Longrightarrow> x \<in> set (action_refs a) \<Longrightarrow>
   x \<in> set (resource_refs (Pipeline p))"
  by (auto simp: stage_refs_def)

text \<open>
  C10. In every stack built by legal calls, the bucket that a deploy action of any
  pipeline of the stack names exists in the stack, is a bucket, and is well formed.
\<close>

theorem reachable_deploy_target:
  assumes "steps (Stack_init scope i props) s"
    and "find_child s pl = Some (Pipeline p)"
    and "st \<in> set (stages p)" and "S3DeployAction a \<in> set (actions st)"
  shows "\<exists>b. find_child s (bucket a) = Some (Bucket b) \<and> wf_bucket b"
proof -
  from assms(1) have inv: "inv s"
    by (rule steps_inv) simp
  with assms(2) have "refs_ok s (resource_refs (Pipeline p))"
    by (auto dest: inv_children simp: wf_resource_def)
  moreover have "(bucket a, KBucket) \<in> set (resource_refs (Pipeline p))"
    using assms(3,4) by (rule in_stage_refs) simp
  ultimately have "has_kind s (bucket a, KBucket)"
    unfolding refs_ok_def list_all_iff by blast
  then obtain b where b: "find_child s (bucket a) = Some (Bucket b)"
    by (auto simp: has_kind_Bucket)
  with inv have "wf_bucket b"
    by (auto dest: inv_children simp: wf_resource_def)
  with b show ?thesis by blast
qed

end
