(* ===== verification/Validation.thy ===== *)
theory Validation
  imports CodePipeline
begin

text \<open>
  An executable validator for pipelines, with its errors as values.

  \<open>wf_pipeline\<close> says whether a pipeline is well formed; \<open>validate\<close> says what is wrong
  with one that is not. \<open>check_stage\<close> lists the errors of one stage against the
  stages before it, one error per violated condition of \<open>stage_ok\<close>, \<open>check_stages\<close>
  runs it along the stage list, and \<open>validate\<close> adds the condition that a pipeline that
  is to be deployed has at least two stages. The validator is a definition of this
  development, not code of the repository; the lemmas tie it to \<open>wf_pipeline\<close>, and the
  root theory applies it to the pipeline the constructor builds.
\<close>

datatype PipelineError =
    TooFewStages nat
  | DuplicateStageName string
  | EmptyStage string
  | DuplicateActionName string
  | DuplicateOutput string
  | MissingInput string Artifact
  | OutputExists string Artifact
  | FirstStageNotSource string
  | SourceAfterFirstStage string

definition check_stage :: "StageProps list \<Rightarrow> StageProps \<Rightarrow> PipelineError list" where
  "check_stage sts st =
     report (stageName st \<in> set (map stageName sts)) (DuplicateStageName (stageName st)) @
     report (actions st = []) (EmptyStage (stageName st)) @
     report (\<not> distinct (map action_name (actions st))) (DuplicateActionName (stageName st)) @
     report (\<not> distinct (stage_outputs st)) (DuplicateOutput (stageName st)) @
     map (MissingInput (stageName st))
       (filter (\<lambda>a. a \<notin> set (produced sts)) (stage_inputs st)) @
     map (OutputExists (stageName st))
       (filter (\<lambda>a. a \<in> set (produced sts)) (stage_outputs st)) @
     (if sts = [] then report (\<not> is_source st) (FirstStageNotSource (stageName st))
      else report (\<not> no_source st) (SourceAfterFirstStage (stageName st)))"

fun check_stages :: "StageProps list \<Rightarrow> StageProps list \<Rightarrow> PipelineError list" where
  "check_stages seen [] = []"
| "check_stages seen (st # sts) = check_stage seen st @ check_stages (seen @ [st]) sts"

definition validate :: "Pipeline \<Rightarrow> PipelineError list" where
  "validate p =
     report (length (stages p) < 2) (TooFewStages (length (stages p))) @
     check_stages [] (stages p)"

definition deployable :: "Pipeline \<Rightarrow> bool" where
  "deployable p \<longleftrightarrow> wf_pipeline p \<and> 2 \<le> length (stages p)"

subsection \<open>No error means well formed\<close>

lemma check_stage_Nil: "check_stage sts st = [] \<longleftrightarrow> stage_ok sts st"
  by (auto simp: check_stage_def stage_ok_def wf_stage_def filter_Nil_all)

lemma check_stages_Nil:
  "wf_stages seen \<Longrightarrow> check_stages seen sts = [] \<longleftrightarrow> wf_stages (seen @ sts)"
proof (induction sts arbitrary: seen)
  case Nil
  then show ?case by simp
next
  case (Cons st sts)
  show ?case
  proof (cases "stage_ok seen st")
    case True
    with Cons.prems have "wf_stages (seen @ [st])"
      by (simp add: wf_stages_snoc)
    from Cons.IH [OF this] True show ?thesis
      by (simp add: check_stage_Nil)
  next
    case False
    then have "\<not> wf_stages ((seen @ [st]) @ sts)"
      using wf_stages_prefix [of "seen @ [st]" sts] by (auto simp: wf_stages_snoc)
    with False show ?thesis
      by (simp add: check_stage_Nil)
  qed
qed

text \<open>
  What it means that the validator reports nothing: the pipeline is well formed and
  has at least two stages.
\<close>

lemma validate_Nil_iff: "validate p = [] \<longleftrightarrow> deployable p"
  using check_stages_Nil [of "[]" "stages p"]
  by (auto simp: validate_def deployable_def wf_pipeline_def)

end
