(* ===== verification/Calls.thy ===== *)
theory Calls
  imports Legality Validation
begin

text \<open>
  The calls of a stack constructor as data, and a checked run of a sequence of calls.

  The constructor of \<^verbatim>\<open>src/infrastructure/lib/infra-stack.ts\<close> is a straight sequence of
  four kinds of call on the scope: \<^verbatim>\<open>new Artifact()\<close>, \<^verbatim>\<open>new C(this, id, props)\<close>,
  \<^verbatim>\<open>userPool.addDomain(id, options)\<close> and \<^verbatim>\<open>pipeline.addStage(props)\<close>. \<open>Call\<close> names
  them, \<open>exec\<close> is the change of the stack each one makes (the changes of \<open>Constructs\<close>),
  and \<open>run\<close> executes a list of them in order.

  \<open>check\<close> lists what makes a call illegal in a stack, one \<open>CallError\<close> per violated
  condition of \<open>legal\<close>; \<open>run_checked\<close> executes a list of calls and stops at the first
  call with an error, returning the call and its errors. Both are definitions of this
  development: the repository has no error handling of its own. The lemmas show that
  \<open>check\<close> reports nothing exactly for the legal calls and that the stacks
  \<open>run_checked\<close> returns are the stacks legal calls reach, so that a successful checked
  run of the calls of the constructor (in the theory \<open>InfraStack\<close> and the root theory)
  says that every single call was legal in the stack built before it.
\<close>

subsection \<open>Calls and their execution\<close>

datatype Call =
    NewArtifact
  | NewConstruct construct_id Resource
  | AddDomain construct_id construct_id UserPoolDomainOptions
  | AddStage construct_id StageProps

fun exec :: "Call \<Rightarrow> ('s, 'p) Stack \<Rightarrow> ('s, 'p) Stack" where
  "exec NewArtifact s = alloc s"
| "exec (NewConstruct i r) s = add_child i r s"
| "exec (AddDomain pool i opts) s = add_domain pool i opts s"
| "exec (AddStage pl st) s = add_stage pl st s"

definition run :: "Call list \<Rightarrow> ('s, 'p) Stack \<Rightarrow> ('s, 'p) Stack" where
  "run cs s = fold exec cs s"

fun legal :: "Call \<Rightarrow> ('s, 'p) Stack \<Rightarrow> bool" where
  "legal NewArtifact s \<longleftrightarrow> True"
| "legal (NewConstruct i r) s \<longleftrightarrow> construct_legal i r s"
| "legal (AddDomain pool i opts) s \<longleftrightarrow> domain_legal pool i opts s"
| "legal (AddStage pl st) s \<longleftrightarrow> stage_legal pl st s"

subsection \<open>Errors of a call\<close>

datatype CallError =
    DuplicateId construct_id
  | IllFormed construct_id
  | DanglingReference construct_id "construct_id \<times> Kind"
  | UnknownArtifact construct_id Artifact
  | NotAUserPool construct_id
  | NotAPipeline construct_id
  | DuplicateDomain construct_id construct_id
  | InvalidPrefix string
  | PrefixTaken string
  | StageRejected construct_id "PipelineError list"

definition dangling ::
  "('s, 'p) Stack \<Rightarrow> construct_id \<Rightarrow> (construct_id \<times> Kind) list \<Rightarrow> CallError list" where
  "dangling s i rs = map (DanglingReference i) (filter (\<lambda>x. \<not> has_kind s x) rs)"

definition unallocated ::
  "('s, 'p) Stack \<Rightarrow> construct_id \<Rightarrow> Artifact list \<Rightarrow> CallError list" where
  "unallocated s i as = map (UnknownArtifact i) (filter (\<lambda>a. \<not> allocated s a) as)"

fun check :: "Call \<Rightarrow> ('s, 'p) Stack \<Rightarrow> CallError list" where
  "check NewArtifact s = []"
| "check (NewConstruct i r) s =
     report (\<not> fresh i (children s)) (DuplicateId i) @
     report (\<not> wf_props r) (IllFormed i) @
     dangling s i (resource_refs r) @
     unallocated s i (resource_artifacts r)"
| "check (AddDomain pool i opts) s =
     (case the_pool (find_child s pool) of
        None \<Rightarrow> [NotAUserPool pool]
      | Some p \<Rightarrow>
          report (\<not> fresh i (domains p)) (DuplicateDomain pool i) @
          report (\<not> valid_prefix (domainPrefix (cognitoDomain opts)))
            (InvalidPrefix (domainPrefix (cognitoDomain opts))) @
          report (domainPrefix (cognitoDomain opts) \<in> set (domain_prefixes p))
            (PrefixTaken (domainPrefix (cognitoDomain opts))))"
| "check (AddStage pl st) s =
     (case the_pipeline (find_child s pl) of
        None \<Rightarrow> [NotAPipeline pl]
      | Some p \<Rightarrow>
          report (check_stage (stages p) st \<noteq> [])
            (StageRejected pl (check_stage (stages p) st))) @
     dangling s pl (stage_refs st) @
     unallocated s pl (stage_artifacts st)"

fun run_checked ::
  "Call list \<Rightarrow> ('s, 'p) Stack \<Rightarrow> (Call \<times> CallError list) + ('s, 'p) Stack" where
  "run_checked [] s = Inr s"
| "run_checked (c # cs) s =
     (if check c s = [] then run_checked cs (exec c s) else Inl (c, check c s))"

subsection \<open>Running a list of calls\<close>

lemma run_simps [simp]:
  "run [] s = s"
  "run (c # cs) s = run cs (exec c s)"
  "run (cs @ cs') s = run cs' (run cs s)"
  by (simp_all add: run_def)

lemma dangling_Nil [simp]: "dangling s i rs = [] \<longleftrightarrow> refs_ok s rs"
  by (simp add: dangling_def refs_ok_def filter_Nil_all)

lemma unallocated_Nil [simp]: "unallocated s i as = [] \<longleftrightarrow> artifacts_ok s as"
  by (simp add: unallocated_def artifacts_ok_def filter_Nil_all)

lemma check_Nil: "check c s = [] \<longleftrightarrow> legal c s"
  by (cases c)
    (auto simp: legal_defs wf_resource_def addStage_ok_def check_stage_Nil split: option.splits)

lemma step_exec: "step s t \<longleftrightarrow> (\<exists>c. legal c s \<and> t = exec c s)"
proof
  assume "step s t"
  then show "\<exists>c. legal c s \<and> t = exec c s"
  proof (cases rule: step.cases)
    case artifact
    then have "legal NewArtifact s \<and> t = exec NewArtifact s" by simp
    then show ?thesis ..
  next
    case (construct i r)
    then have "legal (NewConstruct i r) s \<and> t = exec (NewConstruct i r) s" by simp
    then show ?thesis ..
  next
    case (domain pool i opts)
    then have "legal (AddDomain pool i opts) s \<and> t = exec (AddDomain pool i opts) s" by simp
    then show ?thesis ..
  next
    case (stage pl st)
    then have "legal (AddStage pl st) s \<and> t = exec (AddStage pl st) s" by simp
    then show ?thesis ..
  qed
next
  assume "\<exists>c. legal c s \<and> t = exec c s"
  then obtain c where "legal c s" and "t = exec c s" by blast
  then show "step s t"
    by (cases c) (auto intro: step.intros)
qed

lemma run_checked_append:
  "run_checked (cs @ cs') s =
     (case run_checked cs s of Inl e \<Rightarrow> Inl e | Inr t \<Rightarrow> run_checked cs' t)"
  by (induction cs arbitrary: s) simp_all

lemma run_checked_steps: "run_checked cs s = Inr t \<Longrightarrow> steps s t"
proof (induction cs arbitrary: t rule: rev_induct)
  case Nil
  then show ?case by (simp add: steps.start)
next
  case (snoc c cs)
  from snoc.prems obtain u where u: "run_checked cs s = Inr u" and t: "run_checked [c] u = Inr t"
    by (auto simp: run_checked_append split: sum.splits)
  from t have "step u t"
    by (auto simp: step_exec check_Nil split: if_splits)
  with snoc.IH [OF u] show ?case
    by (rule steps.more)
qed

lemma steps_run_checked: "steps s t \<Longrightarrow> \<exists>cs. run_checked cs s = Inr t"
proof (induction rule: steps.induct)
  case (start s)
  have "run_checked [] s = Inr s" by simp
  then show ?case ..
next
  case (more s t u)
  then obtain cs c where "run_checked cs s = Inr t" and "legal c t" and "u = exec c t"
    by (auto simp: step_exec)
  then have "run_checked (cs @ [c]) s = Inr u"
    by (simp add: run_checked_append check_Nil)
  then show ?case ..
qed

end
