(* ===== verification/InfraStack.thy ===== *)
theory InfraStack
  imports Calls
begin

text \<open>
  The constructor of the stack (\<^verbatim>\<open>src/infrastructure/lib/infra-stack.ts\<close>, lines
  16-133), statement by statement and in the order of the source.

  A \<^verbatim>\<open>const\<close> that names a construct is bound to the id the construct was created
  with; a \<^verbatim>\<open>const\<close> that names an action is bound to the action value; the two
  artifacts are bound to the artifacts \<open>new_Artifact\<close> returns. \<open>InfraStack\<close> runs the
  body on the stack that \<^verbatim>\<open>super(scope, id, props)\<close> sets up.

  \<open>script\<close> is the same sequence of calls as data, with the ids and artifacts the
  bindings of the body stand for written out; \<open>constructor_script\<close> shows that the body
  executes exactly this sequence.

  \<open>InfraStack_eq\<close> computes the result once, for any arguments: the resource graph the
  constructor leaves behind. The facts about single resources below are read off it.
\<close>

definition constructor_body :: "(('s, 'p) Stack, unit) state" where
  "constructor_body = do {
     sourceOutput \<leftarrow> new_Artifact;
     buildOutput \<leftarrow> new_Artifact;
     let sourceAction = sourceAction sourceOutput;
     project \<leftarrow> new_construct ''AwsIDFExampleProject'' (PipelineProject projectProps);
     let buildAction = buildAction project sourceOutput buildOutput;
     bucket \<leftarrow> new_construct ''AwsIDFExampleBucket'' (Bucket bucketProps);
     awsIdfExample \<leftarrow> new_construct ''OriginAccessControl'' (OriginAccessIdentity oaiProps);
     new_construct ''AwsIDFExampleDistribution''
       (Distribution (distributionProps bucket awsIdfExample));
     let deployAction = deployAction buildOutput bucket;
     userPool \<leftarrow> new_construct ''AwsIDFExampleUserPool'' (UserPool new_UserPool);
     userPoolDomain \<leftarrow> pool_addDomain userPool ''default'' domainOptions;
     pipeline \<leftarrow> new_construct ''AwsIDFExamplePipeline'' (Pipeline (new_Pipeline pipelineProps));
     pipeline_addStage pipeline \<lparr>stageName = ''Source'', actions = [sourceAction]\<rparr>;
     pipeline_addStage pipeline \<lparr>stageName = ''Build'', actions = [buildAction]\<rparr>;
     pipeline_addStage pipeline \<lparr>stageName = ''Deploy'', actions = [deployAction]\<rparr>
   }"

definition InfraStack :: "'s \<Rightarrow> construct_id \<Rightarrow> 'p option \<Rightarrow> ('s, 'p) Stack" where
  "InfraStack scope i props = snd (run_state constructor_body (Stack_init scope i props))"

definition script :: "nat \<Rightarrow> Call list" where
  "script n =
     [NewArtifact,
      NewArtifact,
      NewConstruct ''AwsIDFExampleProject'' (PipelineProject projectProps),
      NewConstruct ''AwsIDFExampleBucket'' (Bucket bucketProps),
      NewConstruct ''OriginAccessControl'' (OriginAccessIdentity oaiProps),
      NewConstruct ''AwsIDFExampleDistribution''
        (Distribution (distributionProps ''AwsIDFExampleBucket'' ''OriginAccessControl'')),
      NewConstruct ''AwsIDFExampleUserPool'' (UserPool new_UserPool),
      AddDomain ''AwsIDFExampleUserPool'' ''default'' domainOptions,
      NewConstruct ''AwsIDFExamplePipeline'' (Pipeline (new_Pipeline pipelineProps)),
      AddStage ''AwsIDFExamplePipeline''
        \<lparr>stageName = ''Source'', actions = [sourceAction (Artifact n)]\<rparr>,
      AddStage ''AwsIDFExamplePipeline''
        \<lparr>stageName = ''Build'',
         actions = [buildAction ''AwsIDFExampleProject'' (Artifact n) (Artifact (Suc n))]\<rparr>,
      AddStage ''AwsIDFExamplePipeline''
        \<lparr>stageName = ''Deploy'',
         actions = [deployAction (Artifact (Suc n)) ''AwsIDFExampleBucket'']\<rparr>]"

lemma constructor_calls:
  "snd (run_state constructor_body s) =
     add_stage ''AwsIDFExamplePipeline''
       \<lparr>stageName = ''Deploy'',
        actions = [deployAction (Artifact (Suc (artifacts s))) ''AwsIDFExampleBucket'']\<rparr>
    (add_stage ''AwsIDFExamplePipeline''
       \<lparr>stageName = ''Build'',
        actions = [buildAction ''AwsIDFExampleProject'' (Artifact (artifacts s))
                    (Artifact (Suc (artifacts s)))]\<rparr>
    (add_stage ''AwsIDFExamplePipeline''
       \<lparr>stageName = ''Source'', actions = [sourceAction (Artifact (artifacts s))]\<rparr>
    (add_child ''AwsIDFExamplePipeline'' (Pipeline (new_Pipeline pipelineProps))
    (add_domain ''AwsIDFExampleUserPool'' ''default'' domainOptions
    (add_child ''AwsIDFExampleUserPool'' (UserPool new_UserPool)
    (add_child ''AwsIDFExampleDistribution''
       (Distribution (distributionProps ''AwsIDFExampleBucket'' ''OriginAccessControl''))
    (add_child ''OriginAccessControl'' (OriginAccessIdentity oaiProps)
    (add_child ''AwsIDFExampleBucket'' (Bucket bucketProps)
    (add_child ''AwsIDFExampleProject'' (PipelineProject projectProps)
    (alloc (alloc s)))))))))))"
  by (simp add: constructor_body_def Let_def)

lemma constructor_script: "snd (run_state constructor_body s) = run (script (artifacts s)) s"
  by (simp add: constructor_calls script_def)

definition template :: "Resource entries" where
  "template =
     [(''AwsIDFExampleProject'', PipelineProject projectProps),
      (''AwsIDFExampleBucket'', Bucket bucketProps),
      (''OriginAccessControl'', OriginAccessIdentity oaiProps),
      (''AwsIDFExampleDistribution'',
         Distribution (distributionProps ''AwsIDFExampleBucket'' ''OriginAccessControl'')),
      (''AwsIDFExampleUserPool'', UserPool \<lparr>domains = [(''default'', domainOptions)]\<rparr>),
      (''AwsIDFExamplePipeline'', Pipeline \<lparr>
         pipelineName = ''AwsIDFExample'',
         crossAccountKeys = False,
         stages = [
           \<lparr>stageName = ''Source'', actions = [sourceAction (Artifact 0)]\<rparr>,
           \<lparr>stageName = ''Build'',
            actions = [buildAction ''AwsIDFExampleProject'' (Artifact 0) (Artifact 1)]\<rparr>,
           \<lparr>stageName = ''Deploy'',
            actions = [deployAction (Artifact 1) ''AwsIDFExampleBucket'']\<rparr>]\<rparr>)]"

lemma InfraStack_eq:
  "InfraStack scope i props =
     \<lparr>stackScope = scope, stackId = i, stackProps = props, artifacts = 2, children = template\<rparr>"
  by (simp add: InfraStack_def constructor_calls template_def change_defs Stack_init_def
      alloc_def add_child_def update_child_def add_entry_def map_entry_def
      new_Pipeline_def pipelineProps_def new_UserPool_def addDomain_def addStage_def)

lemmas eval_defs =
  change_defs alloc_def add_child_def update_child_def add_entry_def map_entry_def
  find_child_def find_entry_def has_kind_def refs_ok_def artifacts_ok_def wf_resource_def
  stage_refs_def stage_artifacts_def

lemma constructor_legal:
  "children s = [] \<Longrightarrow> steps s (snd (run_state constructor_body s))"
  unfolding constructor_calls
  by (intro steps_intros; simp add: legal_defs; simp add: eval_defs wf_defs infra_defs prefix_char_def)

end
