(* ===== verification/Deployment.thy ===== *)
theory Deployment
  imports Legality "HOL-Library.Multiset"
begin

text \<open>
  The references between the constructs of a stack, and an order of provisioning
  that respects them.

  A construct that refers to another one (the distribution to its bucket and its
  origin access identity, the pipeline to the build project and the bucket of its
  actions) can only be provisioned after it. \<open>depends\<close> lists the ids a resource refers
  to; the root theory reads the dependencies of the stack of the repository with it.
  \<open>deploy_order\<close> lists the constructs of a stack with those that refer to nothing
  first, each group in creation order. It is a definition of this development (the
  engine that provisions a stack is not modelled); \<open>deploy_order_sound\<close> shows that
  it respects the references in every stack that satisfies the invariant.
\<close>

definition depends :: "Resource \<Rightarrow> construct_id list" where
  "depends r = map fst (resource_refs r)"

definition is_leaf :: "Resource \<Rightarrow> bool" where
  "is_leaf r \<longleftrightarrow> resource_refs r = []"

definition leaves :: "Resource entries \<Rightarrow> construct_id list" where
  "leaves es = ids (filter (\<lambda>(i, r). is_leaf r) es)"

definition dependents :: "Resource entries \<Rightarrow> construct_id list" where
  "dependents es = ids (filter (\<lambda>(i, r). \<not> is_leaf r) es)"

definition deploy_order :: "('s, 'p) Stack \<Rightarrow> construct_id list" where
  "deploy_order s = leaves (children s) @ dependents (children s)"

definition before :: "'a list \<Rightarrow> 'a \<Rightarrow> 'a \<Rightarrow> bool" where
  "before xs x y \<longleftrightarrow> y \<in> set xs \<and> x \<in> set (takeWhile (\<lambda>z. z \<noteq> y) xs)"

lemmas deploy_defs = deploy_order_def leaves_def dependents_def is_leaf_def depends_def

subsection \<open>References lead to constructs without references\<close>

lemma action_refs_kind:
  "(d, k) \<in> set (action_refs a) \<Longrightarrow> k = KProject \<or> k = KBucket"
  by (cases a) auto

lemma resource_refs_kind:
  "(d, k) \<in> set (resource_refs r) \<Longrightarrow> k = KProject \<or> k = KBucket \<or> k = KIdentity"
  by (cases r) (auto simp: stage_refs_def dest: action_refs_kind)

lemma kind_is_leaf:
  "kind_of r = KProject \<or> kind_of r = KBucket \<or> kind_of r = KIdentity \<Longrightarrow> is_leaf r"
  by (cases r) (auto simp: is_leaf_def)

lemma inv_ref_leaf:
  assumes "inv s" and "find_child s i = Some r" and "(d, k) \<in> set (resource_refs r)"
  shows "\<exists>r'. find_child s d = Some r' \<and> is_leaf r'"
proof -
  from assms(1,2) have "refs_ok s (resource_refs r)"
    by (auto dest: inv_children simp: wf_resource_def)
  with assms(3) have "has_kind s (d, k)"
    by (auto simp: refs_ok_def list_all_iff)
  then obtain r' where "find_child s d = Some r'" and "kind_of r' = k"
    by (auto simp: has_kind_def)
  with resource_refs_kind [OF assms(3)] show ?thesis
    by (auto intro: kind_is_leaf)
qed

subsection \<open>The order\<close>

lemma find_entry_distinct:
  "distinct (ids es) \<Longrightarrow> (i, r) \<in> set es \<longleftrightarrow> find_entry es i = Some r"
  by (simp add: find_entry_def ids_def)

lemma leaves_iff:
  "distinct (ids es) \<Longrightarrow> i \<in> set (leaves es) \<longleftrightarrow> (\<exists>r. find_entry es i = Some r \<and> is_leaf r)"
  by (auto simp: leaves_def ids_def find_entry_distinct [unfolded ids_def] image_iff)

lemma dependents_iff:
  "distinct (ids es) \<Longrightarrow>
   i \<in> set (dependents es) \<longleftrightarrow> (\<exists>r. find_entry es i = Some r \<and> \<not> is_leaf r)"
  by (auto simp: dependents_def ids_def find_entry_distinct [unfolded ids_def] image_iff)

lemma mset_leaves_dependents: "mset (leaves es) + mset (dependents es) = mset (ids es)"
  by (induction es) (auto simp: leaves_def dependents_def)

lemma before_append:
  assumes "y \<notin> set xs" and "y \<in> set ys" and "x \<in> set xs"
  shows "before (xs @ ys) x y"
proof -
  from assms(1) have "takeWhile (\<lambda>z. z \<noteq> y) (xs @ ys) = xs @ takeWhile (\<lambda>z. z \<noteq> y) ys"
    by (intro takeWhile_append2) auto
  with assms(2,3) show ?thesis
    by (simp add: before_def)
qed

text \<open>
  In a stack that satisfies the invariant \<open>deploy_order\<close> lists every construct once,
  and every construct that another construct refers to stands before that construct.
\<close>

lemma deploy_order_sound:
  assumes "inv s"
  shows "mset (deploy_order s) = mset (ids (children s)) \<and> distinct (deploy_order s) \<and>
    (\<forall>i r d. find_child s i = Some r \<and> d \<in> set (depends r) \<longrightarrow>
       before (deploy_order s) d i)"
proof -
  have perm: "mset (deploy_order s) = mset (ids (children s))"
    by (simp add: deploy_order_def mset_leaves_dependents)
  from assms have dist: "distinct (ids (children s))"
    by (simp add: inv_def)
  with perm have "distinct (deploy_order s)"
    by (metis mset_eq_imp_distinct_iff)
  moreover have "before (deploy_order s) d i"
    if "find_child s i = Some r" and "d \<in> set (depends r)" for i r d
  proof -
    from that(2) obtain k where k: "(d, k) \<in> set (resource_refs r)"
      by (auto simp: depends_def)
    then have "\<not> is_leaf r"
      by (auto simp: is_leaf_def)
    with that(1) dist have "i \<notin> set (leaves (children s))" "i \<in> set (dependents (children s))"
      by (auto simp: leaves_iff dependents_iff find_child_def)
    moreover from inv_ref_leaf [OF assms that(1) k] dist have "d \<in> set (leaves (children s))"
      by (auto simp: leaves_iff find_child_def)
    ultimately show ?thesis
      unfolding deploy_order_def by (intro before_append)
  qed
  ultimately show ?thesis
    using perm by blast
qed

end
