(* ===== verification/Spec2Isabelle.thy ===== *)
theory Spec2Isabelle
  imports InfraStack Deployment
begin

text \<open>
  \<^bold>\<open>A verification development for the deployment stack of aws-idf-example.\<close>

  \<^bold>\<open>The program.\<close> The repository has one source file,
  \<^verbatim>\<open>src/infrastructure/lib/infra-stack.ts\<close>: the class \<^verbatim>\<open>InfraStack\<close>, whose constructor
  declares a delivery pipeline (a source stage that pulls a repository, a build stage
  that builds a static site, a deploy stage that copies the site into a bucket), the
  bucket, a content-delivery distribution in front of the bucket with its origin
  access identity, and a user pool with a hosted domain. The constructor has no
  branches and no loops. What it does is create constructs in a scope, in a fixed
  order, and wire them: an action names the artifact it reads and the artifact it
  writes, the build action names its project, the deploy action and the origin of the
  distribution name the bucket. The behaviour to verify is therefore the resource
  graph the constructor builds and the legality of every call it makes on the way.

  \<^bold>\<open>Three kinds of definition.\<close> The development keeps apart
  \<^item> \<^emph>\<open>transcriptions of the source\<close>: the literals (\<open>sourceAction\<close>, \<open>buildAction\<close>,
    \<open>deployAction\<close>, \<open>pipelineProps\<close>, \<open>bucketProps\<close>, \<open>oaiProps\<close>,
    \<open>distributionProps\<close>, \<open>buildSpecObject\<close>, \<open>projectProps\<close>, \<open>uniquePrefix\<close>,
    \<open>domainOptions\<close>), the records and datatypes that give them their shape, and the
    constructor itself (\<open>constructor_body\<close>, \<open>InfraStack\<close>, \<open>script\<close>);
  \<^item> \<^emph>\<open>the model of the library\<close> the source calls, which is not code of the
    repository: the state of a scope (\<open>Stack\<close>, \<open>Stack_init\<close>), of a pipeline
    (\<open>Pipeline\<close>, \<open>new_Pipeline\<close>, \<open>addStage\<close>) and of a user pool (\<open>UserPool\<close>,
    \<open>new_UserPool\<close>, \<open>addDomain\<close>), the four calls (\<open>new_Artifact\<close>, \<open>new_construct\<close>,
    \<open>pool_addDomain\<close>, \<open>pipeline_addStage\<close>, and \<open>Call\<close> with \<open>exec\<close>), and the
    content of the constant \<open>ALLOW_GET_HEAD_OPTIONS\<close>. Each call is given the state
    change its call site determines and nothing more;
  \<^item> \<^emph>\<open>specification\<close>: what the development requires of a stack. These definitions
    translate no code and no sentence of the specification of the repository; they
    are the conditions under which the platform accepts what the source declares,
    written down so that theorems about the source can be stated: \<open>wf_pipeline\<close>,
    \<open>wf_bucket\<close>, \<open>wf_distribution\<close>, \<open>wf_pool\<close>, \<open>wf_spec\<close>, \<open>inv\<close>, the legality
    of a call with \<open>step\<close> and \<open>steps\<close>, the checkers \<open>validate\<close>, \<open>check\<close> and
    \<open>run_checked\<close>, and the readers \<open>respond\<close>, \<open>depends\<close>, \<open>deploy_order\<close>,
    \<open>decode\<close> and \<open>encode\<close>.
  The properties of the development are statements about the transcriptions, which a
  change of the source would falsify, and three statements about the model of the
  library together with the legality conditions (\<open>addStage_wf_iff\<close>, \<open>reachable_inv\<close>,
  \<open>reachable_deploy_target\<close>). Facts that only relate one specification definition
  to another are kept as lemmas where a property rests on them, not as properties.

  \<^bold>\<open>Theories and what they model.\<close>
  \<^item> \<open>Prelude\<close>: construct ids, a scope as an association list in creation order with
    \<open>add_entry\<close>, \<open>find_entry\<close>, \<open>map_entry\<close> and their lemmas, \<open>report\<close>, and the fact
    collections \<open>infra_defs\<close> (the declarations of the stack) and \<open>wf_defs\<close> (the
    well-formedness predicates).
  \<^item> \<open>CodePipeline\<close> (lines 20-32, 61-63, 96-100, 111-131): \<open>Artifact\<close>, \<open>SecretValue\<close>,
    the property records of the three actions, \<open>Action\<close>, \<open>StageProps\<close>,
    \<open>PipelineProps\<close>, the pipeline object \<open>Pipeline\<close> with \<open>new_Pipeline\<close> and
    \<open>addStage\<close>, and the declarations \<open>sourceAction\<close>, \<open>buildAction\<close>,
    \<open>deployAction\<close>, \<open>pipelineProps\<close>. It proves that \<open>addStage\<close> keeps a pipeline
    well formed exactly under \<open>addStage_ok\<close>.
  \<^item> \<open>CodeBuild\<close> (lines 34-60): the build project; the build specification as an untyped
    object \<open>Value\<close>, as the source hands it to \<^verbatim>\<open>BuildSpec.fromObject\<close>, with
    \<open>lookup\<close> by path; the typed view \<open>TypedSpec\<close> with \<open>decode\<close> and \<open>encode\<close>. It
    proves the commands of the literal in execution order and that the literal is a
    well-formed build specification with no key beside the schema.
  \<^item> \<open>S3\<close> (lines 65-75): \<open>BucketProps\<close>, \<open>bucketProps\<close>, and what its settings mean
    together (\<open>is_website\<close>, \<open>publicly_readable\<close>, \<open>wf_bucket\<close>).
  \<^item> \<open>CloudFront\<close> (lines 77-94): the origin access identity, \<open>DistributionProps\<close>,
    \<open>distributionProps\<close>; \<open>respond\<close> gives the answer of the distribution to an origin
    status under the custom error responses.
  \<^item> \<open>Cognito\<close> (lines 103-109): the user pool as the list of its domains,
    \<open>addDomain\<close>, \<open>uniquePrefix\<close>, and the validity of a domain prefix.
  \<^item> \<open>Constructs\<close>: \<open>Resource\<close>, the sum of the six kinds of construct the stack creates;
    \<open>Stack\<close>, the state of the constructor (the arguments of \<^verbatim>\<open>super\<close>, the number
    of artifacts allocated, the constructs by id in creation order); the four calls
    that change it as computations in the state monad of \<open>HOL-Library.State_Monad\<close>.
  \<^item> \<open>Legality\<close>: when a call is legal (\<open>construct_legal\<close>, \<open>domain_legal\<close>,
    \<open>stage_legal\<close>), the step relation \<open>step\<close> of legal calls and its closure \<open>steps\<close>,
    the invariant \<open>inv\<close>. It proves by rule induction that legal calls keep the
    invariant, and that in every reachable stack a deploy action names a well-formed
    bucket.
  \<^item> \<open>Validation\<close>: the executable validator \<open>validate\<close> of pipelines, with the lemma
    that it reports nothing exactly for the well-formed pipelines with two stages or
    more.
  \<^item> \<open>Calls\<close>: the four kinds of call as the datatype \<open>Call\<close> with \<open>exec\<close> and \<open>run\<close>;
    \<open>check\<close>, which lists the errors of a call, and \<open>run_checked\<close>, which runs a list
    of calls up to the first error; the lemmas that tie them to \<open>step\<close> and \<open>steps\<close>.
  \<^item> \<open>Deployment\<close>: \<open>depends\<close>, the ids a resource refers to, and \<open>deploy_order\<close>, an
    order of provisioning, with the lemma that it respects the references.
  \<^item> \<open>InfraStack\<close> (lines 16-133): \<open>constructor_body\<close>, the statements of the constructor
    in source order, written with \<open>do\<close>; \<open>InfraStack\<close>, the constructor; \<open>script\<close>, the
    same statements as a list of calls; \<open>template\<close>, the resource graph it leaves;
    \<open>constructor_legal\<close>, that it makes legal calls only.
  \<^item> this theory: the properties of the stack that span components.

  \<^bold>\<open>How the model corresponds to the code.\<close> An object literal of the source is a record
  with the same field names and values (\<^verbatim>\<open>output\<close> is written \<open>"output"\<close> in the
  declaration because it is a keyword of the theory language). A class of the library
  that the source instantiates is a constructor of \<open>Action\<close>, \<open>Origin\<close> or \<open>Resource\<close>.
  An enumeration value of the library is a constructor of a datatype that lists the
  values of the enumeration. A \<^verbatim>\<open>const\<close> that holds a construct is the id of the
  construct: a reference is followed by looking the id up in the stack. An artifact
  has no name in the source, so its identity is the number of its allocation. The
  build project, which the source creates inside the literal of the build action, is
  created by the statement before the action is built. The parent scope and the stack
  properties are passed to \<^verbatim>\<open>super\<close> and never read, so their types are type
  variables. \<open>script\<close> writes the bindings of the constructor out; its parameter is the
  number of artifacts allocated before the first call, which is 0 for the stack of
  \<^verbatim>\<open>super\<close>.

  The calls of the model make no check of their own: \<^verbatim>\<open>new C(this, id, props)\<close>
  records the resource under the id, \<^verbatim>\<open>addStage\<close> appends a stage, \<^verbatim>\<open>addDomain\<close>
  records a domain under the pool. The conditions under which the platform accepts a
  call (an id is used once per scope, a stage name once per pipeline, artifacts are
  produced before they are consumed, source actions stand in the first stage, a
  public bucket must not block public policies, a domain prefix is made of lower-case
  letters, digits and hyphens) are the predicates of \<open>Legality\<close> and of the component
  theories, and the theorems show that the constructor meets them.

  \<^bold>\<open>What is proved.\<close> Of the constructor: it only makes legal calls; its result
  satisfies the invariant; its result is the graph \<open>template\<close> with six constructs in
  creation order and two artifacts; it executes the calls of \<open>script\<close>, each of which
  passes \<open>check\<close> in the stack built before it. Of the pipeline it builds: the stages
  Source, Build and Deploy in this order, each with one action; the artifacts handed
  from the source action to the build action and from the build action to the deploy
  action; the one source action with its repository, branch and secret; the
  validator accepts it. Of the wiring: the bucket the pipeline deploys to is the
  bucket the distribution serves; the bucket at the origin of the distribution is
  publicly readable although the origin carries an identity; the distribution depends
  on bucket and identity, the pipeline on project and bucket, and nothing else
  depends on anything. Of the literals: the build commands in order and the shape of
  the build specification, the settings of the bucket, the answer of the distribution
  to every origin status, its methods and protocol policy, the domain prefix. Of the
  model of the library: \<open>addStage\<close> keeps well-formedness exactly under
  \<open>addStage_ok\<close>, every stack that legal calls build satisfies the invariant, and in
  every such stack a deploy action names a well-formed bucket.

  \<^bold>\<open>Bounds.\<close> No definition uses fuel and no bound is assumed: every function is
  structurally recursive over a list or a datatype, and the theorems about the
  constructor hold for all arguments. Status codes and the artifact counter are
  natural numbers; the source does no arithmetic on them.

  \<^bold>\<open>Not modelled.\<close> The library \<^verbatim>\<open>aws-cdk-lib\<close> itself (synthesis of the template,
  default values of properties the source does not set, logical ids and tokens), the
  deployment engine, and the run-time behaviour of the provisioned services beyond
  the reading of the settings given above. The secret behind \<^verbatim>\<open>github_token\<close> is a
  name only. The repository has no error handling; the error values of \<open>Validation\<close>
  and \<open>Calls\<close> belong to the specification, and the theorems about the constructor
  show that none of them arises.
\<close>

section \<open>Views of the stack across components\<close>

definition stack_pipeline :: "('s, 'p) Stack \<Rightarrow> Pipeline option" where
  "stack_pipeline s = the_pipeline (find_child s ''AwsIDFExamplePipeline'')"

fun deploy_target :: "Action \<Rightarrow> construct_id list" where
  "deploy_target (S3DeployAction p) = [bucket p]"
| "deploy_target a = []"

fun deploy_targets :: "Resource \<Rightarrow> construct_id list" where
  "deploy_targets (Pipeline p) = concat (map deploy_target (concat (map actions (stages p))))"
| "deploy_targets r = []"

fun served_buckets :: "Resource \<Rightarrow> construct_id list" where
  "served_buckets (Distribution d) = [origin_bucket (origin (defaultBehavior d))]"
| "served_buckets r = []"

definition all_of :: "(Resource \<Rightarrow> 'a list) \<Rightarrow> ('s, 'p) Stack \<Rightarrow> 'a list" where
  "all_of f s = concat (map (\<lambda>(i, r). f r) (children s))"

definition handoffs :: "Pipeline \<Rightarrow> (string \<times> Artifact list \<times> Artifact list) list" where
  "handoffs p = map (\<lambda>st. (stageName st, stage_inputs st, stage_outputs st)) (stages p)"

fun source_settings :: "Action \<Rightarrow> (string \<times> string \<times> string \<times> SecretValue) list" where
  "source_settings (GitHubSourceAction p) = [(owner p, repo p, branch p, oauthToken p)]"
| "source_settings a = []"

definition sources :: "Pipeline \<Rightarrow> (string \<times> (string \<times> string \<times> string \<times> SecretValue) list) list" where
  "sources p = map (\<lambda>st. (stageName st, concat (map source_settings (actions st)))) (stages p)"

definition stack_distribution :: "('s, 'p) Stack \<Rightarrow> DistributionProps option" where
  "stack_distribution s = the_distribution (find_child s ''AwsIDFExampleDistribution'')"

definition origin_bucket_of :: "('s, 'p) Stack \<Rightarrow> DistributionProps \<Rightarrow> BucketProps option" where
  "origin_bucket_of s d = the_bucket (find_child s (origin_bucket (origin (defaultBehavior d))))"

definition origin_identity_kind :: "('s, 'p) Stack \<Rightarrow> DistributionProps \<Rightarrow> Kind option" where
  "origin_identity_kind s d =
     map_option kind_of (find_child s (origin_identity (origin (defaultBehavior d))))"

lemma children_InfraStack: "children (InfraStack scope i props) = template"
  by (simp add: InfraStack_eq)

lemma stack_pipeline_InfraStack:
  "stack_pipeline (InfraStack scope i props) =
     the_pipeline (find_entry template ''AwsIDFExamplePipeline'')"
  by (simp add: stack_pipeline_def find_child_def children_InfraStack)

lemmas template_eval = template_def find_entry_def all_of_def

lemma stack_distribution_InfraStack:
  "stack_distribution (InfraStack scope i props) =
     the_distribution (find_entry template ''AwsIDFExampleDistribution'')"
  by (simp add: stack_distribution_def find_child_def children_InfraStack)

lemmas run_defs =
  script_def legal_defs eval_defs wf_defs infra_defs prefix_char_def Stack_init_def
  new_Pipeline_def addStage_def

section \<open>The constructor\<close>

text \<open>
  C1. Whatever scope, id and properties the stack is created with, the constructor
  reaches its result from the empty stack by legal calls only: every construct is
  created under an id that is new, refers only to constructs that exist at that moment
  and are of the expected kind, and every stage is added to an existing pipeline under
  a new name, consuming only artifacts that earlier stages produce.
\<close>

theorem InfraStack_makes_legal_calls:
  "steps (Stack_init scope i props) (InfraStack scope i props)"
  unfolding InfraStack_def by (rule constructor_legal) simp

text \<open>
  C2. The stack the constructor builds satisfies the invariant of the scope: construct
  ids are distinct, every reference leads to a construct of the expected kind, every
  resource is well formed, and every artifact mentioned has been allocated.
\<close>

theorem InfraStack_inv: "inv (InfraStack scope i props)"
  unfolding InfraStack_def by (rule steps_inv [OF constructor_legal]) simp_all

text \<open>
  C4. The pipeline of the stack has exactly three stages, named Source, Build and
  Deploy, in this order, and each stage has exactly one action: GithubSource, Build
  and S3Deploy.
\<close>

theorem three_ordered_stages:
  "map_option stage_names (stack_pipeline (InfraStack scope i props)) =
     Some [''Source'', ''Build'', ''Deploy''] \<and>
   map_option (\<lambda>p. map (\<lambda>st. map action_name (actions st)) (stages p))
     (stack_pipeline (InfraStack scope i props)) =
     Some [[''GithubSource''], [''Build''], [''S3Deploy'']]"
  by (simp add: stack_pipeline_InfraStack template_eval stage_names_def infra_defs)

text \<open>
  C5. The artifacts are handed through the pipeline of the stack in a chain: the
  source stage consumes nothing and produces the first artifact, the build stage
  consumes the first artifact and produces the second, the deploy stage consumes the
  second artifact and produces nothing.
\<close>

theorem artifact_handoff:
  "map_option handoffs (stack_pipeline (InfraStack scope i props)) =
     Some [(''Source'', [], [Artifact 0]),
           (''Build'', [Artifact 0], [Artifact 1]),
           (''Deploy'', [Artifact 1], [])]"
  by (simp add: stack_pipeline_InfraStack template_eval handoffs_def stage_inputs_def
      stage_outputs_def infra_defs)

text \<open>
  C6. The site that is deployed is the site that is served: the only bucket a deploy
  action of the stack writes to and the only bucket a distribution of the stack has as
  its origin are the same construct, the bucket created as AwsIDFExampleBucket.
\<close>

theorem deployed_is_served:
  "all_of deploy_targets (InfraStack scope i props) = [''AwsIDFExampleBucket''] \<and>
   all_of served_buckets (InfraStack scope i props) = [''AwsIDFExampleBucket''] \<and>
   map_option kind_of (find_child (InfraStack scope i props) ''AwsIDFExampleBucket'') =
     Some KBucket"
  by (simp add: find_child_def children_InfraStack template_eval infra_defs)

text \<open>
  C8. The constructor leaves exactly the resource graph \<open>template\<close>: six constructs,
  created in the order project, bucket, origin access identity, distribution, user
  pool, pipeline, with two artifacts allocated and the arguments of the constructor
  kept as they were passed.
\<close>

theorem InfraStack_graph:
  "children (InfraStack scope i props) = template \<and>
   ids (children (InfraStack scope i props)) =
     [''AwsIDFExampleProject'', ''AwsIDFExampleBucket'', ''OriginAccessControl'',
      ''AwsIDFExampleDistribution'', ''AwsIDFExampleUserPool'', ''AwsIDFExamplePipeline''] \<and>
   artifacts (InfraStack scope i props) = 2 \<and>
   stackScope (InfraStack scope i props) = scope \<and>
   stackId (InfraStack scope i props) = i \<and>
   stackProps (InfraStack scope i props) = props"
  by (simp add: InfraStack_eq template_def)

text \<open>
  C13. The bucket that the distribution of the stack has as its origin is publicly
  readable, although the origin is given an origin access identity, and that identity
  is an identity construct of the stack. The bucket is found by following the origin
  of the distribution: the identity is not what opens the bucket to the distribution.
\<close>

theorem origin_bucket_public:
  "map_option (\<lambda>d. map_option publicly_readable (origin_bucket_of (InfraStack scope i props) d))
     (stack_distribution (InfraStack scope i props)) = Some (Some True) \<and>
   map_option (origin_identity_kind (InfraStack scope i props))
     (stack_distribution (InfraStack scope i props)) = Some (Some KIdentity)"
  by (simp add: stack_distribution_InfraStack origin_bucket_of_def origin_identity_kind_def
      find_child_def children_InfraStack template_eval wf_defs infra_defs)

text \<open>
  C12. The pipeline of the stack takes its source from one place only: the Source
  stage holds the one source action of the pipeline, which pulls the branch
  \<^verbatim>\<open>main\<close> of the repository \<^verbatim>\<open>aws-idf-example\<close> of the owner \<^verbatim>\<open>mactunechy\<close> and
  authenticates with the secret stored under the name \<^verbatim>\<open>github_token\<close>; the Build
  stage and the Deploy stage hold no source action.
\<close>

theorem pipeline_source:
  "map_option sources (stack_pipeline (InfraStack scope i props)) =
     Some [(''Source'',
              [(''mactunechy'', ''aws-idf-example'', ''main'', secretsManager ''github_token'')]),
           (''Build'', []),
           (''Deploy'', [])]"
  by (simp add: stack_pipeline_InfraStack template_eval sources_def infra_defs)

text \<open>
  C14. The validator reports no error for the pipeline the constructor builds: the
  pipeline is well formed and has the two stages or more that a deployment needs.
\<close>

theorem InfraStack_validates:
  "map_option validate (stack_pipeline (InfraStack scope i props)) = Some []"
  by (simp add: stack_pipeline_InfraStack template_eval validate_def check_stage_def wf_defs
      infra_defs)

section \<open>The constructor as a sequence of calls\<close>

text \<open>
  C9. The constructor executes the sequence of calls \<open>script\<close>, and the checked run
  of that sequence from the empty stack reports no error and returns the stack the
  constructor builds.
\<close>

theorem InfraStack_runs_script:
  "InfraStack scope i props = run (script 0) (Stack_init scope i props) \<and>
   run_checked (script 0) (Stack_init scope i props) = Inr (InfraStack scope i props)"
  by (simp add: InfraStack_def constructor_script)
    (simp add: run_defs check_Nil del: check.simps)

section \<open>The order of provisioning\<close>

text \<open>
  C11. In the stack the constructor builds, the distribution depends on the bucket
  and on the origin access identity, the pipeline on the build project and on the
  bucket, and no other construct depends on anything. \<open>deploy_order\<close> provisions
  the project, the bucket, the identity and the user pool before the distribution and
  the pipeline.
\<close>

theorem InfraStack_deploy_order:
  "map (\<lambda>(i, r). (i, depends r)) (children (InfraStack scope i props)) =
     [(''AwsIDFExampleProject'', []),
      (''AwsIDFExampleBucket'', []),
      (''OriginAccessControl'', []),
      (''AwsIDFExampleDistribution'', [''AwsIDFExampleBucket'', ''OriginAccessControl'']),
      (''AwsIDFExampleUserPool'', []),
      (''AwsIDFExamplePipeline'', [''AwsIDFExampleProject'', ''AwsIDFExampleBucket''])] \<and>
   deploy_order (InfraStack scope i props) =
     [''AwsIDFExampleProject'', ''AwsIDFExampleBucket'', ''OriginAccessControl'',
      ''AwsIDFExampleUserPool'', ''AwsIDFExampleDistribution'', ''AwsIDFExamplePipeline'']"
  by (simp add: children_InfraStack template_def deploy_defs stage_refs_def infra_defs)

section \<open>Instances of the general statements\<close>

text \<open>
  The deploy action of the stack is an instance of the general statement about deploy
  actions in reachable stacks: the bucket it names is a well-formed bucket construct.
\<close>

theorem reachable_deploy_target_witness:
  "\<exists>b. find_child (InfraStack () ''InfraStack'' (None :: unit option)) ''AwsIDFExampleBucket'' =
     Some (Bucket b) \<and> wf_bucket b"
proof -
  let ?s = "InfraStack () ''InfraStack'' (None :: unit option)"
  let ?st = "\<lparr>stageName = ''Deploy'',
    actions = [deployAction (Artifact 1) ''AwsIDFExampleBucket'']\<rparr>"
  have legal: "steps (Stack_init () ''InfraStack'' None) ?s"
    unfolding InfraStack_def by (rule constructor_legal) simp
  obtain p where p: "find_child ?s ''AwsIDFExamplePipeline'' = Some (Pipeline p)"
    and st: "?st \<in> set (stages p)"
    by (simp add: find_child_def children_InfraStack template_eval)
  have "S3DeployAction \<lparr>actionName = ''S3Deploy'', input = Artifact 1,
      bucket = ''AwsIDFExampleBucket''\<rparr> \<in> set (actions ?st)"
    by (simp add: deployAction_def)
  from reachable_deploy_target [OF legal p st this] show ?thesis
    by simp
qed

end
